theory Spec2Isabelle
  imports Complex_Main "HOL-Library.Sublist"
begin

text \<open>
  A shallow embedding of the message routing and conversation persistence of the Glint
  chat client, \<open>script.js\<close>, in the revision kept as \<open>src/unnamed/part_000\<close>
  (\<open>src/script.js\<close> is an earlier revision: it differs in the provider calls, in the
  voice keywords and in the reply callback, not in the storage functions).
  Functions keep the names they have in the source; the provider calls of
  \<open>src/script.js\<close> are embedded next to those of \<open>part_000\<close>, with the suffix
  \<open>_script_js\<close>.
\<close>

section \<open>Strings\<close>

text \<open>
  A JavaScript string is modelled by an Isabelle \<open>string\<close>. The embedding is exact on
  ASCII text: \<open>toLowerCase\<close> and \<open>toUpperCase\<close> change the 26 ASCII letters and leave
  every other character as it is. The one non-ASCII character the modelled code writes,
  the cross mark U+274C that opens the voice messages, is spelled as its three UTF-8 bytes.
\<close>

definition toLowerCase_char :: "char \<Rightarrow> char" where
  "toLowerCase_char c =
     (let n = (of_char c :: nat) in if 65 \<le> n \<and> n \<le> 90 then char_of (n + 32) else c)"

definition toUpperCase_char :: "char \<Rightarrow> char" where
  "toUpperCase_char c =
     (let n = (of_char c :: nat) in if 97 \<le> n \<and> n \<le> 122 then char_of (n - 32) else c)"

definition toLowerCase :: "string \<Rightarrow> string" where
  "toLowerCase s = map toLowerCase_char s"

definition toUpperCase :: "string \<Rightarrow> string" where
  "toUpperCase s = map toUpperCase_char s"

text \<open>\<open>s.includes(k)\<close>: \<open>k\<close> occurs in \<open>s\<close> as a contiguous run of characters.\<close>

primrec js_includes :: "string \<Rightarrow> string \<Rightarrow> bool" where
  "js_includes [] k = (k = [])"
| "js_includes (c # s) k = (prefix k (c # s) \<or> js_includes s k)"

text \<open>\<open>x || ''\<close> for the result of \<open>localStorage.getItem\<close> (\<open>None\<close> is \<open>null\<close>).\<close>

definition or_empty :: "string option \<Rightarrow> string" where
  "or_empty v = (case v of None \<Rightarrow> [] | Some x \<Rightarrow> x)"

text \<open>Decimal rendering of a non-negative number, as string concatenation does it.\<close>

definition digit_char :: "nat \<Rightarrow> char" where
  "digit_char d = ''0123456789'' ! d"

function show_nat :: "nat \<Rightarrow> string" where
  "show_nat n = (if n < 10 then [digit_char n] else show_nat (n div 10) @ [digit_char (n mod 10)])"
  by pat_completeness auto
termination
  by (relation "measure (\<lambda>n. n)") auto

declare show_nat.simps [simp del]

section \<open>Classifier: detectApiType\<close>

definition imageKeywords :: "string list" where
  "imageKeywords = [''image'', ''photo'', ''picture'', ''generate image'', ''create image'',
     ''draw'', ''visual'', ''painting'', ''artwork'']"

definition voiceKeywords :: "string list" where
  "voiceKeywords = [''voice'', ''speech'', ''audio'', ''record'', ''listen'', ''speak'',
     ''microphone'', ''sound'', ''text to speech'', ''tts'']"

definition codingKeywords :: "string list" where
  "codingKeywords = [''code'', ''function'', ''program'', ''script'', ''algorithm'', ''debug'',
     ''error'', ''fix'', ''build'', ''create'', ''develop'', ''write'', ''make'', ''javascript'',
     ''python'', ''html'', ''css'', ''react'', ''node'', ''api'', ''loop'', ''array'', ''object'',
     ''class'', ''component'', ''database'', ''variable'', ''syntax'']"

definition detectApiType :: "string \<Rightarrow> string" where
  "detectApiType message =
     (let lowerMsg = toLowerCase message in
      if list_ex (\<lambda>keyword. js_includes lowerMsg keyword) imageKeywords then ''image''
      else if list_ex (\<lambda>keyword. js_includes lowerMsg keyword) voiceKeywords then ''voice''
      else if list_ex (\<lambda>keyword. js_includes lowerMsg keyword) codingKeywords then ''coding''
      else ''text'')"

text \<open>
  The classifier as the specification words it: an ordered rule list of (category, keyword
  set) pairs, tried in order on the case-folded text, the first rule with a keyword that
  occurs in the text decides, and \<open>text\<close> is the default.
\<close>

definition classify_rules :: "(string \<times> string list) list" where
  "classify_rules =
     [(''image'', imageKeywords), (''voice'', voiceKeywords), (''coding'', codingKeywords)]"

fun first_matching_rule :: "(string \<times> string list) list \<Rightarrow> string \<Rightarrow> string" where
  "first_matching_rule [] folded = ''text''"
| "first_matching_rule ((category, keywords) # rules) folded =
     (if \<exists>k \<in> set keywords. sublist k folded then category
      else first_matching_rule rules folded)"

definition classify_spec :: "string \<Rightarrow> string" where
  "classify_spec text = first_matching_rule classify_rules (toLowerCase text)"

section \<open>Key store: localStorage and getApiKey\<close>

text \<open>
  The string-valued items of \<open>localStorage\<close> (the four credentials and the language
  preference), by key. \<open>None\<close> is what \<open>getItem\<close> returns as \<open>null\<close>.
\<close>

type_synonym items = "string \<rightharpoonup> string"

definition getApiKey :: "items \<Rightarrow> string \<Rightarrow> string" where
  "getApiKey ls type =
     (if type = ''text'' then or_empty (ls ''glint_text_api'')
      else if type = ''image'' then or_empty (ls ''glint_image_api'')
      else if type = ''voice'' then or_empty (ls ''glint_voice_api'')
      else if type = ''coding'' then or_empty (ls ''glint_coding_api'')
      else or_empty (ls ''glint_text_api''))"

section \<open>Provider gateway: makeApiCall\<close>

text \<open>
  A thrown value is its class and message (the message of a \<open>SyntaxError\<close> or a
  \<open>TypeError\<close>, which the browser words, is left out). \<open>fetch\<close> is an input of the
  model: the
  network maps a request to the response the provider gives, or to the exception the
  promise rejects with. Every function that can reach \<open>fetch\<close> returns, next to its
  result, the list of requests it sent, in order. A response is described by what the code
  reads from it. \<open>error_json\<close> is \<open>None\<close> when \<open>response.json()\<close> rejects and
  otherwise the \<open>message\<close> field of the parsed object (\<open>None\<close> when it has none).
  \<open>choice_content\<close> is what \<open>data.choices[0].message.content\<close> evaluates to on the
  parsed body: a string, \<open>None\<close> for a value that is not a string, or the exception
  raised on the way (\<open>response.json()\<close> rejects, a step of the path is undefined).
  In the same way \<open>output_url\<close> is \<open>data.output_url\<close>, \<open>data_url\<close> is
  \<open>data.data[0].url\<close> and \<open>data_text\<close> is \<open>data.text\<close>.
\<close>

datatype js_error = Error string | TypeError | SyntaxError

datatype req_body
  = ChatCompletion string "(string \<times> string) list" nat rat
  | ImageGeneration string nat string string
  | FormData "(string \<times> string) list"

record request =
  url :: string
  headers :: "(string \<times> string) list"
  body :: req_body

record response =
  ok :: bool
  status :: nat
  statusText :: string
  error_json :: "string option option"
  response_text :: string
  choice_content :: "js_error + string option"
  output_url :: "js_error + string option"
  data_url :: "js_error + string option"
  data_text :: "js_error + string option"

type_synonym network = "request \<Rightarrow> js_error + response"

text \<open>
  The options object; \<open>None\<close> is a property that is not set. \<open>n_images\<close> and
  \<open>image_size\<close> are \<open>options.n\<close> and \<open>options.size\<close>.
\<close>

record options =
  systemPrompt :: "string option"
  max_tokens :: "nat option"
  temperature :: "rat option"
  model :: "string option"
  n_images :: "nat option"
  image_size :: "string option"

definition no_options :: options where
  "no_options = \<lparr>systemPrompt = None, max_tokens = None, temperature = None,
     model = None, n_images = None, image_size = None\<rparr>"

definition or_nat :: "nat option \<Rightarrow> nat \<Rightarrow> nat" where
  "or_nat v d = (case v of None \<Rightarrow> d | Some n \<Rightarrow> if n = 0 then d else n)"

definition or_rat :: "rat option \<Rightarrow> rat \<Rightarrow> rat" where
  "or_rat v d = (case v of None \<Rightarrow> d | Some n \<Rightarrow> if n = 0 then d else n)"

definition or_string :: "string option \<Rightarrow> string \<Rightarrow> string" where
  "or_string v d = (case v of None \<Rightarrow> d | Some x \<Rightarrow> if x = [] then d else x)"

text \<open>
  \<open>await response.json().catch(() => ({ message: fallback }))\<close> followed by
  \<open>errorData.message || response.statusText\<close>.
\<close>

definition error_detail :: "response \<Rightarrow> string \<Rightarrow> string" where
  "error_detail r fallback =
     (case error_json r of
        None \<Rightarrow> or_string (Some fallback) (statusText r)
      | Some m \<Rightarrow> or_string m (statusText r))"

definition is_space :: "char \<Rightarrow> bool" where
  "is_space c = ((of_char c :: nat) \<in> {9, 10, 11, 12, 13, 32})"

definition trim :: "string \<Rightarrow> string" where
  "trim s = rev (dropWhile is_space (rev (dropWhile is_space s)))"

type_synonym 'a called = "(js_error + 'a) \<times> request list"

definition callTextApi :: "network \<Rightarrow> string \<Rightarrow> string \<Rightarrow> options \<Rightarrow> string option called" where
  "callTextApi net message apiKey opts =
     (let req = \<lparr>url = ''https://api.deepseek.com/v1/chat/completions'',
                 headers = [(''Content-Type'', ''application/json''),
                            (''Authorization'', ''Bearer '' @ apiKey)],
                 body = ChatCompletion ''deepseek-chat''
                   [(''system'', ''You are GLINT, an AI assistant built by Guru (an app developer). You respond concisely in Roman Urdu. ''
                       @ or_empty (systemPrompt opts)),
                    (''user'', message)]
                   (or_nat (max_tokens opts) 512) (or_rat (temperature opts) (7 / 10))\<rparr>
      in case net req of
           Inl rejection \<Rightarrow> (Inl rejection, [req])
         | Inr r \<Rightarrow>
             if \<not> ok r then
               (Inl (Error (''DeepSeek Text API Error: '' @ show_nat (status r) @ '' - ''
                  @ error_detail r ''Unknown DeepSeek Text API error'')), [req])
             else (case choice_content r of
                     Inl thrown \<Rightarrow> (Inl thrown, [req])
                   | Inr None \<Rightarrow> (Inl TypeError, [req])
                   | Inr (Some c) \<Rightarrow> (Inr (Some (trim c)), [req])))"

definition callImageApi :: "network \<Rightarrow> string \<Rightarrow> string \<Rightarrow> options \<Rightarrow> string option called" where
  "callImageApi net prompt apiKey opts =
     (let req = \<lparr>url = ''https://api.deepai.org/api/text2img'',
                 headers = [(''api-key'', apiKey)],
                 body = FormData [(''text'', prompt)]\<rparr>
      in case net req of
           Inl rejection \<Rightarrow> (Inl rejection, [req])
         | Inr r \<Rightarrow>
             if \<not> ok r then
               (Inl (Error (''DeepAI Image API Error: '' @ show_nat (status r) @ '' - ''
                  @ take 100 (response_text r) @ ''...'')), [req])
             else (case output_url r of
                     Inl thrown \<Rightarrow> (Inl thrown, [req])
                   | Inr u \<Rightarrow> (Inr u, [req])))"

definition voice_message_roman_urdu :: string where
  "voice_message_roman_urdu = CHR 0xE2 # CHR 0x9D # CHR 0x8C #
     '' Voice API (Play.ht/EdenAI) browser se direct kaam nahi karta. Iske liye aapko backend proxy ya special SDK ki zaroorat padegi. Jab tak yeh fix nahi hota, Voice feature kaam nahi karega.''"

definition voice_message_english :: string where
  "voice_message_english = CHR 0xE2 # CHR 0x9D # CHR 0x8C #
     '' Voice API (Play.ht/EdenAI) cannot be called directly from the browser. A backend proxy or specialized SDK is required. The Voice feature will not work until then.''"

definition callVoiceApi :: "items \<Rightarrow> string \<Rightarrow> string \<Rightarrow> options \<Rightarrow> string option called" where
  "callVoiceApi ls textToSpeak apiKey opts =
     (let language = or_string (ls ''selectedLanguage'') ''roman-urdu'';
          errorMessage = (if language = ''roman-urdu'' then voice_message_roman_urdu
                          else voice_message_english)
      in (Inl (Error errorMessage), []))"

definition callCodingApi :: "network \<Rightarrow> string \<Rightarrow> string \<Rightarrow> options \<Rightarrow> string option called" where
  "callCodingApi net message apiKey opts =
     (let req = \<lparr>url = ''https://api.deepseek.com/v1/chat/completions'',
                 headers = [(''Content-Type'', ''application/json''),
                            (''Authorization'', ''Bearer '' @ apiKey)],
                 body = ChatCompletion ''deepseek-coder''
                   [(''system'', ''You are an expert programming assistant named GLINT. Provide clean, efficient code with explanations in a Roman Urdu/Urdu blend where possible. Always use proper syntax highlighting and code formatting.''),
                    (''user'', message)]
                   (or_nat (max_tokens opts) 2048) (or_rat (temperature opts) (3 / 10))\<rparr>
      in case net req of
           Inl rejection \<Rightarrow> (Inl rejection, [req])
         | Inr r \<Rightarrow>
             if \<not> ok r then
               (Inl (Error (''DeepSeek Coding API Error: '' @ show_nat (status r) @ '' - ''
                  @ error_detail r ''Unknown DeepSeek Coding API error'')), [req])
             else (case choice_content r of
                     Inl thrown \<Rightarrow> (Inl thrown, [req])
                   | Inr None \<Rightarrow> (Inl TypeError, [req])
                   | Inr (Some c) \<Rightarrow> (Inr (Some (trim c)), [req])))"

definition makeApiCall :: "items \<Rightarrow> network \<Rightarrow> string \<Rightarrow> string \<Rightarrow> options \<Rightarrow> string option called" where
  "makeApiCall ls net type content opts =
     (let apiKey = getApiKey ls type in
      if apiKey = [] then
        (Inl (Error (toUpperCase type @ '' API key not configured. Please check settings.'')), [])
      else if type = ''text'' then callTextApi net content apiKey opts
      else if type = ''image'' then callImageApi net content apiKey opts
      else if type = ''voice'' then callVoiceApi ls content apiKey opts
      else if type = ''coding'' then callCodingApi net content apiKey opts
      else (Inl (Error ''Unknown API type''), []))"

subsection \<open>The provider calls of src/script.js\<close>

text \<open>
  In \<open>src/script.js\<close> \<open>getApiKey\<close> and the body of \<open>makeApiCall\<close> are the same; the
  four provider calls differ. Each sends one request and, on a response that is not OK,
  throws an error that names the status.
\<close>

definition callTextApi_script_js ::
  "network \<Rightarrow> string \<Rightarrow> string \<Rightarrow> options \<Rightarrow> string option called" where
  "callTextApi_script_js net message apiKey opts =
     (let req = \<lparr>url = ''https://api.openai.com/v1/chat/completions'',
                 headers = [(''Content-Type'', ''application/json''),
                            (''Authorization'', ''Bearer '' @ apiKey)],
                 body = ChatCompletion (or_string (model opts) ''gpt-3.5-turbo'')
                   [(''user'', message)]
                   (or_nat (max_tokens opts) 500) (or_rat (temperature opts) (7 / 10))\<rparr>
      in case net req of
           Inl rejection \<Rightarrow> (Inl rejection, [req])
         | Inr r \<Rightarrow>
             if \<not> ok r then
               (Inl (Error (''Text API error: '' @ show_nat (status r))), [req])
             else (case choice_content r of
                     Inl thrown \<Rightarrow> (Inl thrown, [req])
                   | Inr c \<Rightarrow> (Inr c, [req])))"

definition callImageApi_script_js ::
  "network \<Rightarrow> string \<Rightarrow> string \<Rightarrow> options \<Rightarrow> string option called" where
  "callImageApi_script_js net prompt apiKey opts =
     (let req = \<lparr>url = ''https://api.openai.com/v1/images/generations'',
                 headers = [(''Content-Type'', ''application/json''),
                            (''Authorization'', ''Bearer '' @ apiKey)],
                 body = ImageGeneration prompt (or_nat (n_images opts) 1)
                   (or_string (image_size opts) ''512x512'') ''url''\<rparr>
      in case net req of
           Inl rejection \<Rightarrow> (Inl rejection, [req])
         | Inr r \<Rightarrow>
             if \<not> ok r then
               (Inl (Error (''Image API error: '' @ show_nat (status r))), [req])
             else (case data_url r of
                     Inl thrown \<Rightarrow> (Inl thrown, [req])
                   | Inr u \<Rightarrow> (Inr u, [req])))"

definition callVoiceApi_script_js ::
  "network \<Rightarrow> string \<Rightarrow> string \<Rightarrow> options \<Rightarrow> string option called" where
  "callVoiceApi_script_js net audioData apiKey opts =
     (let req = \<lparr>url = ''https://api.openai.com/v1/audio/transcriptions'',
                 headers = [(''Authorization'', ''Bearer '' @ apiKey)],
                 body = FormData [(''file'', audioData),
                                  (''model'', or_string (model opts) ''whisper-1'')]\<rparr>
      in case net req of
           Inl rejection \<Rightarrow> (Inl rejection, [req])
         | Inr r \<Rightarrow>
             if \<not> ok r then
               (Inl (Error (''Voice API error: '' @ show_nat (status r))), [req])
             else (case data_text r of
                     Inl thrown \<Rightarrow> (Inl thrown, [req])
                   | Inr t \<Rightarrow> (Inr t, [req])))"

definition callCodingApi_script_js ::
  "network \<Rightarrow> string \<Rightarrow> string \<Rightarrow> options \<Rightarrow> string option called" where
  "callCodingApi_script_js net message apiKey opts =
     (let req = \<lparr>url = ''https://api.openai.com/v1/chat/completions'',
                 headers = [(''Content-Type'', ''application/json''),
                            (''Authorization'', ''Bearer '' @ apiKey)],
                 body = ChatCompletion (or_string (model opts) ''gpt-3.5-turbo'')
                   [(''system'', ''You are an expert programming assistant. Provide clean, efficient code with explanations. Always use proper syntax highlighting and code formatting.''),
                    (''user'', message)]
                   (or_nat (max_tokens opts) 1000) (or_rat (temperature opts) (3 / 10))\<rparr>
      in case net req of
           Inl rejection \<Rightarrow> (Inl rejection, [req])
         | Inr r \<Rightarrow>
             if \<not> ok r then
               (Inl (Error (''Coding API error: '' @ show_nat (status r))), [req])
             else (case choice_content r of
                     Inl thrown \<Rightarrow> (Inl thrown, [req])
                   | Inr c \<Rightarrow> (Inr c, [req])))"

definition makeApiCall_script_js ::
  "items \<Rightarrow> network \<Rightarrow> string \<Rightarrow> string \<Rightarrow> options \<Rightarrow> string option called" where
  "makeApiCall_script_js ls net type content opts =
     (let apiKey = getApiKey ls type in
      if apiKey = [] then
        (Inl (Error (toUpperCase type @ '' API key not configured. Please check settings.'')), [])
      else if type = ''text'' then callTextApi_script_js net content apiKey opts
      else if type = ''image'' then callImageApi_script_js net content apiKey opts
      else if type = ''voice'' then callVoiceApi_script_js net content apiKey opts
      else if type = ''coding'' then callCodingApi_script_js net content apiKey opts
      else (Inl (Error ''Unknown API type''), []))"

section \<open>Conversation store\<close>

text \<open>
  The two JSON-valued items of \<open>localStorage\<close> are kept as what \<open>JSON.parse\<close> makes of
  them: \<open>Absent\<close> when the key is not set (\<open>getItem\<close> gives \<open>null\<close>, which parses to
  \<open>null\<close>), \<open>Corrupt\<close> when the stored text is not JSON (\<open>JSON.parse\<close> throws a
  \<open>SyntaxError\<close>), and \<open>Parsed v\<close> for a value of the shape the program itself writes
  with \<open>JSON.stringify\<close>: a list of chats for \<open>glintChatList\<close>, an object from chat
  ids to lists of media for \<open>glintMediaStorage\<close>. \<open>setItem\<close> is taken to succeed.
\<close>

datatype 'a cell = Absent | Corrupt | Parsed 'a

text \<open>\<open>JSON.parse(localStorage.getItem(key)) || dflt\<close>; arrays and objects are truthy.\<close>

definition parse_or :: "'a cell \<Rightarrow> 'a \<Rightarrow> js_error + 'a" where
  "parse_or c dflt = (case c of Absent \<Rightarrow> Inr dflt | Corrupt \<Rightarrow> Inl SyntaxError | Parsed v \<Rightarrow> Inr v)"

record chat =
  chat_id :: string
  chat_name :: string
  chat_date :: string

record media =
  media_id :: string
  media_chatId :: "string option"
  media_data :: string
  media_fileName :: string
  media_type :: string
  media_timestamp :: string
  media_duration :: "nat option"

text \<open>
  An element of the message view: its class attribute and what was assigned to it,
  \<open>textContent\<close> or \<open>innerHTML\<close>. The children of \<open>#messages\<close> are a list, first child
  first; \<open>prepend\<close> puts a node at the front. The same list stands for the markup
  \<open>innerHTML\<close> reads and writes; the empty list is the empty string.
\<close>

datatype content = TextContent string | InnerHTML string

record node =
  className :: string
  content :: content

record storage =
  items :: items
  glintChatList :: "chat list cell"
  glintMediaStorage :: "(string \<rightharpoonup> media list) cell"
  messages_html :: "string \<rightharpoonup> node list"

text \<open>
  The three readings of the clock one call makes: \<open>Date.now()\<close>,
  \<open>new Date().toLocaleString('en-GB', ...)\<close> and \<open>new Date().toISOString()\<close>.
\<close>

record clock =
  now :: nat
  localeString :: string
  isoString :: string

text \<open>
  A callback waiting in \<open>setTimeout\<close>, with the values its closure holds:
  \<open>() => addMessage(text, type)\<close>, and the reply callback with \<open>text\<close>, \<open>apiType\<close>
  and \<open>loadingMessage\<close>. The body of the reply callback is not part of this development.
\<close>

datatype task = AddMessage string string | Respond string string node

text \<open>
  The page: \<open>localStorage\<close>, the global \<open>currentChatId\<close> (\<open>None\<close> is \<open>null\<close>), the
  children of \<open>#messages\<close> (\<open>None\<close> when the element does not exist), the text of
  \<open>#chatTitle\<close> (\<open>None\<close> when it does not exist), the element
  \<open>document.querySelector('.welcome-message')\<close> finds, the \<open>chatId\<close> parameter of the URL,
  the target of a pending \<open>location.replace\<close>, and the timers set, with their delays.
  Console output, scrolling and the drawer's classes are left out, and
  \<open>history.pushState\<close> is taken to exist.
\<close>

record state =
  localStorage :: storage
  currentChatId :: "string option"
  messagesEl :: "node list option"
  chatTitleEl :: "string option"
  welcomeMessage :: "node option"
  url_chatId :: "string option"
  location_replace :: "string option"
  timers :: "(nat \<times> task) list"

definition truthy :: "string option \<Rightarrow> bool" where
  "truthy v = (case v of None \<Rightarrow> False | Some x \<Rightarrow> x \<noteq> [])"

text \<open>The property key \<open>mediaStorage[currentChatId]\<close> uses: \<open>null\<close> becomes \<open>"null"\<close>.\<close>

definition property_key :: "string option \<Rightarrow> string" where
  "property_key v = (case v of None \<Rightarrow> ''null'' | Some x \<Rightarrow> x)"

text \<open>
  \<open>mediaStorage[key]\<close> on the object \<open>JSON.parse\<close> returns (or on \<open>{}\<close>): the stored
  list when the key is a property of the object itself; otherwise, when the key names a
  property every object inherits from \<open>Object.prototype\<close>, that function or object,
  which is truthy and is not an array; otherwise \<open>undefined\<close>.
\<close>

definition object_prototype_names :: "string list" where
  "object_prototype_names = [''constructor'', ''__defineGetter__'', ''__defineSetter__'',
     ''hasOwnProperty'', ''__lookupGetter__'', ''__lookupSetter__'', ''isPrototypeOf'',
     ''propertyIsEnumerable'', ''toString'', ''valueOf'', ''__proto__'', ''toLocaleString'']"

datatype 'a property = Own 'a | Inherited | Undefined

definition get_property :: "(string \<rightharpoonup> 'a) \<Rightarrow> string \<Rightarrow> 'a property" where
  "get_property obj key =
     (case obj key of
        Some v \<Rightarrow> Own v
      | None \<Rightarrow> if key \<in> set object_prototype_names then Inherited else Undefined)"

text \<open>
  What \<open>getChatMedia\<close> returns: an array of media, or the inherited value that
  \<open>mediaStorage[currentChatId] || []\<close> evaluates to.
\<close>

datatype chat_media = MediaArray "media list" | InheritedValue

definition getChatMedia :: "state \<Rightarrow> chat_media" where
  "getChatMedia s =
     (if \<not> truthy (currentChatId s) then MediaArray []
      else case parse_or (glintMediaStorage (localStorage s)) Map.empty of
             Inl error \<Rightarrow> MediaArray []
           | Inr mediaStorage \<Rightarrow>
               (case get_property mediaStorage (property_key (currentChatId s)) of
                  Own chatMedia \<Rightarrow> MediaArray chatMedia
                | Inherited \<Rightarrow> InheritedValue
                | Undefined \<Rightarrow> MediaArray []))"

text \<open>A stored markup is truthy when it is there and not the empty string.\<close>

definition html_truthy :: "node list option \<Rightarrow> bool" where
  "html_truthy v = (case v of None \<Rightarrow> False | Some children \<Rightarrow> children \<noteq> [])"

text \<open>
  \<open>document.querySelector('.welcome-message') ?
  document.querySelector('.welcome-message').outerHTML : ''\<close>.
\<close>

definition welcome_outerHTML :: "state \<Rightarrow> node list" where
  "welcome_outerHTML s = (case welcomeMessage s of None \<Rightarrow> [] | Some w \<Rightarrow> [w])"

text \<open>
  A function that can throw returns the exception, if any, next to the state it leaves
  behind: what was assigned before the throw stays assigned.
  \<open>update_chat_title\<close> is the rest of \<open>loadChat\<close> once the view is set: the registry
  is parsed and the title written. Before that, when there is a stored history,
  \<open>loadChat\<close> calls \<open>getChatMedia\<close> and then \<open>forEach\<close> on what it returns, which
  throws a \<open>TypeError\<close> when that is not an array.
\<close>

definition update_chat_title :: "string \<Rightarrow> state \<Rightarrow> js_error option \<times> state" where
  "update_chat_title chatId s =
     (case parse_or (glintChatList (localStorage s)) [] of
        Inl error \<Rightarrow> (Some error, s)
      | Inr chatList \<Rightarrow>
          (None,
           case chatTitleEl s of
             None \<Rightarrow> s
           | Some title \<Rightarrow>
               (case find (\<lambda>c. chat_id c = chatId) chatList of
                  Some currentChatData \<Rightarrow> s\<lparr>chatTitleEl := Some (chat_name currentChatData)\<rparr>
                | None \<Rightarrow> s\<lparr>chatTitleEl := Some ''Glint Chat''\<rparr>)))"

definition loadChat :: "string \<Rightarrow> state \<Rightarrow> js_error option \<times> state" where
  "loadChat chatId s =
     (case messagesEl s of
        None \<Rightarrow> (None, s)
      | Some old \<Rightarrow>
         (let s1 = s\<lparr>currentChatId := Some chatId\<rparr>;
              chatHistoryHTML = messages_html (localStorage s1) chatId
          in if html_truthy chatHistoryHTML then
               (let s2 = s1\<lparr>messagesEl := chatHistoryHTML\<rparr>
                in case getChatMedia s2 of
                     InheritedValue \<Rightarrow> (Some TypeError, s2)
                   | MediaArray chatMedia \<Rightarrow> update_chat_title chatId s2)
             else update_chat_title chatId (s1\<lparr>messagesEl := Some (welcome_outerHTML s1)\<rparr>)))"

definition saveCurrentChat :: "state \<Rightarrow> state" where
  "saveCurrentChat s =
     (if \<not> truthy (currentChatId s) then s
      else case messagesEl s of
             None \<Rightarrow> s
           | Some children \<Rightarrow>
               s\<lparr>localStorage := (localStorage s)\<lparr>messages_html :=
                    (messages_html (localStorage s))(property_key (currentChatId s) \<mapsto> children)\<rparr>\<rparr>)"

definition startNewChat :: "clock \<Rightarrow> bool \<Rightarrow> state \<Rightarrow> js_error option \<times> state" where
  "startNewChat clk shouldReload s =
     (let newId = ''chat-'' @ show_nat (now clk);
          chatName = ''Nai Chat '' @ localeString clk
      in case parse_or (glintChatList (localStorage s)) [] of
           Inl error \<Rightarrow> (Some error, s)
         | Inr chatList \<Rightarrow>
             let chatList1 = \<lparr>chat_id = newId, chat_name = chatName, chat_date = isoString clk\<rparr>
                              # chatList;
                 s1 = s\<lparr>localStorage := (localStorage s)\<lparr>glintChatList := Parsed chatList1\<rparr>\<rparr>
             in if shouldReload then (None, s1\<lparr>location_replace := Some newId\<rparr>)
                else loadChat newId (s1\<lparr>url_chatId := Some newId, currentChatId := Some newId\<rparr>))"

text \<open>The registry entry \<open>startNewChat\<close> builds from the clock.\<close>

definition new_chat :: "clock \<Rightarrow> chat" where
  "new_chat clk = \<lparr>chat_id = ''chat-'' @ show_nat (now clk),
     chat_name = ''Nai Chat '' @ localeString clk, chat_date = isoString clk\<rparr>"

definition prepend :: "node \<Rightarrow> state \<Rightarrow> state" where
  "prepend n s = s\<lparr>messagesEl := map_option (\<lambda>children. n # children) (messagesEl s)\<rparr>"

definition loading_markup :: "string \<Rightarrow> string" where
  "loading_markup apiType =
     ''<span class='' @ [CHR 0x22] @ ''spinner'' @ [CHR 0x22] @ ''></span> ''
       @ toUpperCase apiType @ '' API se jawab aa raha hai...''"

definition addMessage :: "clock \<Rightarrow> string \<Rightarrow> string \<Rightarrow> state \<Rightarrow> state" where
  "addMessage clk text type s =
     (if messagesEl s = None \<or> \<not> truthy (currentChatId s) then
        (if type = ''user'' then
           (case startNewChat clk False s of
              (Some err, s1) \<Rightarrow> s1
            | (None, s1) \<Rightarrow> s1\<lparr>timers := timers s1 @ [(500, AddMessage text type)]\<rparr>)
         else s)
      else
        let messageDiv = \<lparr>className = ''bubble '' @ type, content = TextContent text\<rparr>;
            s1 = prepend messageDiv s
        in if type = ''user'' then
             let apiType = detectApiType text;
                 loadingMessage = \<lparr>className = ''bubble bot loading-message'',
                                   content = InnerHTML (loading_markup apiType)\<rparr>;
                 s2 = prepend loadingMessage s1
             in s2\<lparr>timers := timers s2 @ [(1000, Respond text apiType loadingMessage)]\<rparr>
           else s1)"

section \<open>Media storage\<close>

text \<open>
  \<open>if (!mediaStorage[key]) mediaStorage[key] = []; mediaStorage[key].push(item)\<close>.
  An inherited value is truthy, so the key is not initialised, and it has no \<open>push\<close>:
  the call throws a \<open>TypeError\<close>. After the first statement the key is never
  undefined.
\<close>

definition push_media ::
  "(string \<rightharpoonup> media list) \<Rightarrow> string \<Rightarrow> media \<Rightarrow> js_error + (string \<rightharpoonup> media list)" where
  "push_media mediaStorage key item =
     (let initialised = (case get_property mediaStorage key of
                           Own existing \<Rightarrow> mediaStorage
                         | Inherited \<Rightarrow> mediaStorage
                         | Undefined \<Rightarrow> mediaStorage(key \<mapsto> []))
      in case get_property initialised key of
           Own existing \<Rightarrow> Inr (initialised(key \<mapsto> existing @ [item]))
         | Inherited \<Rightarrow> Inl TypeError
         | Undefined \<Rightarrow> Inl TypeError)"

text \<open>
  In \<open>savePhotoToStorage\<close> the parse and the push are inside \<open>try\<close>: either exception
  is caught and \<open>null\<close> returned, with nothing written.
\<close>

definition savePhotoToStorage :: "clock \<Rightarrow> string \<Rightarrow> string \<Rightarrow> state \<Rightarrow> string option \<times> state" where
  "savePhotoToStorage clk imageData fileName s =
     (if \<not> truthy (currentChatId s) then (None, s)
      else
        let photoId = ''photo-'' @ show_nat (now clk);
            photoData = \<lparr>media_id = photoId, media_chatId = currentChatId s,
                         media_data = imageData, media_fileName = fileName,
                         media_type = ''photo'', media_timestamp = isoString clk,
                         media_duration = None\<rparr>
        in case parse_or (glintMediaStorage (localStorage s)) Map.empty of
             Inl error \<Rightarrow> (None, s)
           | Inr mediaStorage \<Rightarrow>
               (case push_media mediaStorage (property_key (currentChatId s)) photoData of
                  Inl error \<Rightarrow> (None, s)
                | Inr updated \<Rightarrow>
                    (Some photoId,
                     s\<lparr>localStorage := (localStorage s)\<lparr>glintMediaStorage :=
                          Parsed updated\<rparr>\<rparr>)))"

text \<open>
  \<open>saveVoiceToStorage\<close> returns a promise. \<open>saveVoiceToStorage_onload\<close> is the
  \<open>reader.onload\<close> handler, run on the state of the page when the read completes, with
  \<open>reader.result\<close> as \<open>result\<close>: \<open>Inr voiceId\<close> is \<open>resolve(voiceId)\<close>, \<open>Inl\<close> an
  exception that leaves the handler (the handler runs after the \<open>try\<close> of the promise
  has been left). \<open>saveVoiceToStorage\<close> is the whole call when nothing
  else runs before the read completes: \<open>read\<close> is \<open>None\<close> when the reader fails; the
  result is the promise's outcome, \<open>Inl\<close> the reason of a rejection, and \<open>None\<close> when it
  is never settled.
\<close>

definition saveVoiceToStorage_onload ::
  "clock \<Rightarrow> string \<Rightarrow> string \<Rightarrow> state \<Rightarrow> (js_error + string) \<times> state" where
  "saveVoiceToStorage_onload clk result fileName s =
     (let voiceId = ''voice-'' @ show_nat (now clk);
          voiceData = \<lparr>media_id = voiceId, media_chatId = currentChatId s,
                       media_data = result, media_fileName = fileName,
                       media_type = ''voice'', media_timestamp = isoString clk,
                       media_duration = Some 0\<rparr>
      in case parse_or (glintMediaStorage (localStorage s)) Map.empty of
           Inl error \<Rightarrow> (Inl error, s)
         | Inr mediaStorage \<Rightarrow>
             (case push_media mediaStorage (property_key (currentChatId s)) voiceData of
                Inl error \<Rightarrow> (Inl error, s)
              | Inr updated \<Rightarrow>
                  (Inr voiceId,
                   s\<lparr>localStorage := (localStorage s)\<lparr>glintMediaStorage :=
                        Parsed updated\<rparr>\<rparr>)))"

definition saveVoiceToStorage ::
  "clock \<Rightarrow> string option \<Rightarrow> string \<Rightarrow> state \<Rightarrow> (string + string) option \<times> state" where
  "saveVoiceToStorage clk read fileName s =
     (if \<not> truthy (currentChatId s) then (Some (Inl ''Cannot save voice: No current chat ID''), s)
      else case read of
             None \<Rightarrow> (Some (Inl ''File reading failed''), s)
           | Some result \<Rightarrow>
               (case saveVoiceToStorage_onload clk result fileName s of
                  (Inl error, s1) \<Rightarrow> (None, s1)
                | (Inr voiceId, s1) \<Rightarrow> (Some (Inr voiceId), s1)))"

section \<open>Concrete inputs\<close>

text \<open>A network on which every \<open>fetch\<close> rejects, and the two messages \<open>callVoiceApi\<close> throws.\<close>

definition no_network :: network where
  "no_network = (\<lambda>req. Inl TypeError)"

definition transport_unsupported :: "js_error \<Rightarrow> bool" where
  "transport_unsupported e =
     (e = Error voice_message_roman_urdu \<or> e = Error voice_message_english)"

text \<open>
  A network that answers every request with status 200 and the body
  \<open>{"text": "hello"}\<close>, and the request \<open>callVoiceApi\<close> of \<open>src/script.js\<close> sends for
  the content \<open>say hello\<close> with the key \<open>sk-1\<close>.
\<close>

definition transcription :: response where
  "transcription = \<lparr>ok = True, status = 200, statusText = ''OK'', error_json = Some None,
     response_text = ''{'' @ [CHR 0x22] @ ''text'' @ [CHR 0x22] @ '': '' @ [CHR 0x22]
       @ ''hello'' @ [CHR 0x22] @ ''}'',
     choice_content = Inl TypeError, output_url = Inr None, data_url = Inl TypeError,
     data_text = Inr (Some ''hello'')\<rparr>"

definition transcribing_network :: network where
  "transcribing_network = (\<lambda>req. Inr transcription)"

definition transcription_request :: request where
  "transcription_request = \<lparr>url = ''https://api.openai.com/v1/audio/transcriptions'',
     headers = [(''Authorization'', ''Bearer sk-1'')],
     body = FormData [(''file'', ''say hello''), (''model'', ''whisper-1'')]\<rparr>"

definition voice_key_only :: items where
  "voice_key_only = [''glint_voice_api'' \<mapsto> ''sk-1'']"

definition text_key_only :: items where
  "text_key_only = [''glint_text_api'' \<mapsto> ''sk-2'']"

text \<open>
  A chat page with nothing stored and no active chat, the same page over a store whose
  chat registry is not JSON, and one reading of the clock.
\<close>

definition empty_storage :: storage where
  "empty_storage = \<lparr>items = Map.empty, glintChatList = Absent, glintMediaStorage = Absent,
     messages_html = Map.empty\<rparr>"

definition chat_page :: state where
  "chat_page = \<lparr>localStorage = empty_storage, currentChatId = None, messagesEl = Some [],
     chatTitleEl = Some ''Glint'', welcomeMessage = None, url_chatId = None,
     location_replace = None, timers = []\<rparr>"

definition corrupt_page :: state where
  "corrupt_page = chat_page\<lparr>localStorage := empty_storage\<lparr>glintChatList := Corrupt\<rparr>\<rparr>"

definition noon :: clock where
  "noon = \<lparr>now = 1700000000000, localeString = ''14 Nov, 10:13 pm'',
     isoString = ''2023-11-14T22:13:20.000Z''\<rparr>"

definition noon_chat :: chat where
  "noon_chat = \<lparr>chat_id = ''chat-1700000000000'', chat_name = ''Nai Chat 14 Nov, 10:13 pm'',
     chat_date = ''2023-11-14T22:13:20.000Z''\<rparr>"

definition later :: clock where
  "later = \<lparr>now = 1700000000500, localeString = ''14 Nov, 10:13 pm'',
     isoString = ''2023-11-14T22:13:20.500Z''\<rparr>"

definition later_chat :: chat where
  "later_chat = \<lparr>chat_id = ''chat-1700000000500'', chat_name = ''Nai Chat 14 Nov, 10:13 pm'',
     chat_date = ''2023-11-14T22:13:20.500Z''\<rparr>"

text \<open>The same page without a \<open>#messages\<close> element, and with a chat active.\<close>

definition no_messages_page :: state where
  "no_messages_page = chat_page\<lparr>messagesEl := None\<rparr>"

definition active_page :: state where
  "active_page = chat_page\<lparr>currentChatId := Some ''chat-1''\<rparr>"

text \<open>
  A bubble, and the page after a reload that finds in \<open>localStorage\<close> what
  \<open>saveCurrentChat\<close> stored once the bubble was put in front of the active page's
  messages.
\<close>

definition hello_bubble :: node where
  "hello_bubble = \<lparr>className = ''bubble bot'', content = TextContent ''hello''\<rparr>"

definition reloaded_page :: state where
  "reloaded_page = chat_page\<lparr>localStorage :=
     localStorage (saveCurrentChat (prepend hello_bubble active_page))\<rparr>"

text \<open>A media store that holds one asset for each of two chats.\<close>

definition old_photo :: media where
  "old_photo = \<lparr>media_id = ''photo-1699999999000'', media_chatId = Some ''chat-1'',
     media_data = ''data:image/png;base64,AAAA'', media_fileName = ''old.png'',
     media_type = ''photo'', media_timestamp = ''2023-11-14T22:13:19.000Z'',
     media_duration = None\<rparr>"

definition other_voice :: media where
  "other_voice = \<lparr>media_id = ''voice-1699999998000'', media_chatId = Some ''chat-0'',
     media_data = ''data:audio/wav;base64,BBBB'', media_fileName = ''note.wav'',
     media_type = ''voice'', media_timestamp = ''2023-11-14T22:13:18.000Z'',
     media_duration = Some 0\<rparr>"

definition stored_media :: "string \<rightharpoonup> media list" where
  "stored_media = [''chat-0'' \<mapsto> [other_voice], ''chat-1'' \<mapsto> [old_photo]]"

definition media_page :: state where
  "media_page = active_page\<lparr>localStorage :=
     empty_storage\<lparr>glintMediaStorage := Parsed stored_media\<rparr>\<rparr>"

text \<open>The page opened with \<open>?chatId=constructor\<close>, over the same media store.\<close>

definition constructor_page :: state where
  "constructor_page = media_page\<lparr>currentChatId := Some ''constructor''\<rparr>"

section \<open>Properties of the classifier\<close>

lemma js_includes_sublist: "js_includes s k \<longleftrightarrow> sublist k s"
  by (induction s) (simp_all add: sublist_Cons_right)

lemma toLowerCase_char_idem: "toLowerCase_char (toLowerCase_char c) = toLowerCase_char c"
  by (auto simp: toLowerCase_char_def Let_def)

lemma toLowerCase_idem: "toLowerCase (toLowerCase s) = toLowerCase s"
  by (simp add: toLowerCase_def toLowerCase_char_idem)

lemma detectApiType_case_insensitive: "detectApiType (toLowerCase m) = detectApiType m"
  by (simp add: detectApiType_def toLowerCase_idem)

lemma detectApiType_scenarios:
  "detectApiType ''please draw a picture of a cat'' = ''image''"
  "detectApiType ''debug this function'' = ''coding''"
  "detectApiType ''hello there'' = ''text''"
  by code_simp+

text \<open>
  Claim C2. \<open>detectApiType\<close> is a total function of its argument alone. It agrees
  on every input with the ordered rule list of the specification (image, then voice, then
  coding, default text, first match on the case-folded text); its result is one of the
  four categories; an input whose case-folded text contains an image keyword is classified
  \<open>image\<close>, whatever else it contains; and two inputs that differ only in letter case
  are classified alike.
\<close>

theorem C2_detectApiType_priority_order:
  "detectApiType m = classify_spec m
   \<and> detectApiType m \<in> {''image'', ''voice'', ''coding'', ''text''}
   \<and> ((\<exists>k \<in> set imageKeywords. sublist k (toLowerCase m)) \<longrightarrow> detectApiType m = ''image'')
   \<and> (toLowerCase m = toLowerCase m' \<longrightarrow> detectApiType m = detectApiType m')"
  by (simp add: detectApiType_def classify_spec_def classify_rules_def list_ex_iff
      js_includes_sublist Let_def)

theorem C2_detectApiType_priority_order_witness:
  "sublist ''draw'' (toLowerCase ''Please DRAW some code'')
   \<and> sublist ''code'' (toLowerCase ''Please DRAW some code'')
   \<and> ''draw'' \<in> set imageKeywords \<and> ''code'' \<in> set codingKeywords
   \<and> detectApiType ''Please DRAW some code'' = ''image''
   \<and> toLowerCase ''Please DRAW some code'' = toLowerCase ''please draw SOME CODE''
   \<and> detectApiType ''please draw SOME CODE'' = ''image''"
proof -
  have l1: "toLowerCase ''Please DRAW some code'' = ''please draw some code''"
    by code_simp
  have l2: "toLowerCase ''please draw SOME CODE'' = ''please draw some code''"
    by code_simp
  have d: "sublist ''draw'' ''please draw some code''"
    by code_simp
  have c: "sublist ''code'' ''please draw some code''"
    by code_simp
  have ki: "''draw'' \<in> set imageKeywords"
    by (simp add: imageKeywords_def)
  have kc: "''code'' \<in> set codingKeywords"
    by (simp add: codingKeywords_def)
  have hyp: "\<exists>k \<in> set imageKeywords. sublist k (toLowerCase ''Please DRAW some code'')"
    using ki d l1 by auto
  have eq: "toLowerCase ''Please DRAW some code'' = toLowerCase ''please draw SOME CODE''"
    by (simp only: l1 l2)
  note inst = C2_detectApiType_priority_order
    [of "''Please DRAW some code''" "''please draw SOME CODE''"]
  from inst hyp have r1: "detectApiType ''Please DRAW some code'' = ''image''"
    by blast
  from inst eq have "detectApiType ''Please DRAW some code'' = detectApiType ''please draw SOME CODE''"
    by blast
  with r1 have r2: "detectApiType ''please draw SOME CODE'' = ''image''"
    by simp
  from d c have "sublist ''draw'' (toLowerCase ''Please DRAW some code'')"
    and "sublist ''code'' (toLowerCase ''Please DRAW some code'')"
    by (simp_all only: l1)
  with ki kc r1 eq r2 show ?thesis
    by blast
qed

section \<open>Properties of the key store and the provider gateway\<close>

lemma makeApiCall_no_key:
  "getApiKey ls type = [] \<Longrightarrow> makeApiCall ls net type msg opts =
    (Inl (Error (toUpperCase type @ '' API key not configured. Please check settings.'')), [])"
  by (simp add: makeApiCall_def)

text \<open>
  Claim C1. For each of the four categories, when the credential of the category is not
  configured (its item is not set, or is the empty string), \<open>makeApiCall\<close> fails with
  the error "<CATEGORY> API key not configured. Please check settings." and sends no
  request: the list of requests is empty, whatever the network would answer.
\<close>

theorem C1_unconfigured_fails_without_network_call:
  assumes "type \<in> {''text'', ''image'', ''voice'', ''coding''}"
    and "ls (''glint_'' @ type @ ''_api'') = None \<or> ls (''glint_'' @ type @ ''_api'') = Some []"
  shows "makeApiCall ls net type msg opts =
    (Inl (Error (toUpperCase type @ '' API key not configured. Please check settings.'')), [])"
proof -
  from assms(1) consider "type = ''text''" | "type = ''image''" | "type = ''voice''"
    | "type = ''coding''"
    by auto
  then have "getApiKey ls type = []"
  proof cases
    case 1
    with assms(2) show ?thesis by (auto simp: getApiKey_def or_empty_def)
  next
    case 2
    with assms(2) show ?thesis by (auto simp: getApiKey_def or_empty_def)
  next
    case 3
    with assms(2) show ?thesis by (auto simp: getApiKey_def or_empty_def)
  next
    case 4
    with assms(2) show ?thesis by (auto simp: getApiKey_def or_empty_def)
  qed
  then show ?thesis
    by (rule makeApiCall_no_key)
qed

theorem C1_unconfigured_fails_without_network_call_witness:
  "''image'' \<in> {''text'', ''image'', ''voice'', ''coding''}
   \<and> text_key_only (''glint_'' @ ''image'' @ ''_api'') = None
   \<and> makeApiCall text_key_only no_network ''image'' ''draw a cat'' no_options =
       (Inl (Error ''IMAGE API key not configured. Please check settings.''), [])"
proof -
  have u: "toUpperCase ''image'' = ''IMAGE''"
    by code_simp
  have k: "text_key_only (''glint_'' @ ''image'' @ ''_api'') = None"
    by (simp add: text_key_only_def)
  show ?thesis
    using C1_unconfigured_fails_without_network_call
      [of "''image''" text_key_only no_network "''draw a cat''" no_options] k
    by (simp add: u)
qed

text \<open>
  Claim C9. For a type string that is none of the four categories, \<open>getApiKey\<close>
  returns what it returns for \<open>text\<close>; so whenever the text credential is configured,
  the unknown type has that credential.
\<close>

theorem C9_getApiKey_default_is_text_key:
  assumes "type \<notin> {''text'', ''image'', ''voice'', ''coding''}"
  shows "getApiKey ls type = getApiKey ls ''text''
     \<and> (\<forall>k. ls ''glint_text_api'' = Some k \<and> k \<noteq> [] \<longrightarrow> getApiKey ls type = k)"
  using assms by (auto simp: getApiKey_def or_empty_def)

theorem C9_getApiKey_default_is_text_key_witness:
  "''video'' \<notin> {''text'', ''image'', ''voice'', ''coding''}
   \<and> text_key_only ''glint_text_api'' = Some ''sk-2''
   \<and> getApiKey text_key_only ''video'' = ''sk-2''"
proof -
  have n: "''video'' \<notin> {''text'', ''image'', ''voice'', ''coding''}"
    by simp
  have k: "text_key_only ''glint_text_api'' = Some ''sk-2''"
    by (simp add: text_key_only_def)
  have s: "''sk-2'' \<noteq> []"
    by simp
  from C9_getApiKey_default_is_text_key [OF n, of text_key_only] k s
  have "getApiKey text_key_only ''video'' = ''sk-2''"
    by blast
  with n k show ?thesis
    by blast
qed

lemma voice_messages_nonempty:
  "voice_message_roman_urdu \<noteq> []" "voice_message_english \<noteq> []"
  by (simp_all add: voice_message_roman_urdu_def voice_message_english_def)

lemma makeApiCall_script_js_voice:
  assumes "ls ''glint_voice_api'' = Some k" and "k \<noteq> []"
  shows "makeApiCall_script_js ls net ''voice'' msg opts = callVoiceApi_script_js net msg k opts"
  using assms by (simp add: makeApiCall_script_js_def getApiKey_def or_empty_def)

text \<open>
  Claim C5, as stated, fails for the revision \<open>src/script.js\<close>: there
  \<open>callVoiceApi\<close> posts the content to the transcription endpoint. With a voice key
  configured and a provider that answers 200 with \<open>{"text": "hello"}\<close>,
  \<open>makeApiCall\<close> for \<open>voice\<close> sends that one request and succeeds with \<open>hello\<close>.
\<close>

theorem C5_script_js_voice_call_succeeds_counterexample:
  "makeApiCall_script_js voice_key_only transcribing_network ''voice'' ''say hello'' no_options
     = (Inr (Some ''hello''), [transcription_request])"
proof -
  have k: "voice_key_only ''glint_voice_api'' = Some ''sk-1''"
    by (simp add: voice_key_only_def)
  have s: "''sk-1'' \<noteq> []"
    by simp
  show ?thesis
    unfolding makeApiCall_script_js_voice [of voice_key_only "''sk-1''", OF k s]
    by (simp add: callVoiceApi_script_js_def transcribing_network_def transcription_def
        transcription_request_def no_options_def or_string_def Let_def)
qed

text \<open>
  Claim C5, amended. With a voice credential configured, what \<open>makeApiCall\<close> does for
  \<open>voice\<close> depends on the revision. In \<open>src/unnamed/part_000\<close> it fails on every
  network and for every content and options with the same error, whose message is chosen
  by the language preference alone (the Roman Urdu text when the preference is unset,
  empty or \<open>roman-urdu\<close>, the English text otherwise); the message is not empty, it is
  one of the two messages \<open>callVoiceApi\<close> throws, and no request is sent. In
  \<open>src/script.js\<close> it sends exactly one request, the content and the model name posted
  with the key to \<open>https://api.openai.com/v1/audio/transcriptions\<close>, and its outcome is
  the provider's: the rejection of the fetch, the error "Voice API error: <status>" on a
  response that is not OK, and otherwise \<open>data.text\<close>.
\<close>

theorem C5_voice_dispatch_by_revision:
  assumes "ls ''glint_voice_api'' = Some k" and "k \<noteq> []"
  shows "makeApiCall ls net ''voice'' msg opts =
           (Inl (Error (if or_string (ls ''selectedLanguage'') ''roman-urdu'' = ''roman-urdu''
                        then voice_message_roman_urdu else voice_message_english)), [])
         \<and> (if or_string (ls ''selectedLanguage'') ''roman-urdu'' = ''roman-urdu''
              then voice_message_roman_urdu else voice_message_english) \<noteq> []
         \<and> transport_unsupported
              (Error (if or_string (ls ''selectedLanguage'') ''roman-urdu'' = ''roman-urdu''
                      then voice_message_roman_urdu else voice_message_english))
         \<and> snd (makeApiCall_script_js ls net ''voice'' msg opts) =
             [\<lparr>url = ''https://api.openai.com/v1/audio/transcriptions'',
               headers = [(''Authorization'', ''Bearer '' @ k)],
               body = FormData [(''file'', msg),
                                (''model'', or_string (model opts) ''whisper-1'')]\<rparr>]
         \<and> fst (makeApiCall_script_js ls net ''voice'' msg opts) =
             (case net \<lparr>url = ''https://api.openai.com/v1/audio/transcriptions'',
                         headers = [(''Authorization'', ''Bearer '' @ k)],
                         body = FormData [(''file'', msg),
                                          (''model'', or_string (model opts) ''whisper-1'')]\<rparr> of
                Inl rejection \<Rightarrow> Inl rejection
              | Inr r \<Rightarrow>
                  if \<not> ok r then Inl (Error (''Voice API error: '' @ show_nat (status r)))
                  else data_text r)"
proof -
  have part_000: "makeApiCall ls net ''voice'' msg opts =
           (Inl (Error (if or_string (ls ''selectedLanguage'') ''roman-urdu'' = ''roman-urdu''
                        then voice_message_roman_urdu else voice_message_english)), [])"
    using assms
    by (simp add: makeApiCall_def getApiKey_def or_empty_def callVoiceApi_def Let_def)
  have nonempty: "(if or_string (ls ''selectedLanguage'') ''roman-urdu'' = ''roman-urdu''
              then voice_message_roman_urdu else voice_message_english) \<noteq> []"
    by (simp add: voice_messages_nonempty)
  have unsupported: "transport_unsupported
              (Error (if or_string (ls ''selectedLanguage'') ''roman-urdu'' = ''roman-urdu''
                      then voice_message_roman_urdu else voice_message_english))"
    by (simp add: transport_unsupported_def)
  have sent: "snd (makeApiCall_script_js ls net ''voice'' msg opts) =
             [\<lparr>url = ''https://api.openai.com/v1/audio/transcriptions'',
               headers = [(''Authorization'', ''Bearer '' @ k)],
               body = FormData [(''file'', msg),
                                (''model'', or_string (model opts) ''whisper-1'')]\<rparr>]"
    unfolding makeApiCall_script_js_voice [of ls k, OF assms]
    by (simp add: callVoiceApi_script_js_def Let_def split: sum.splits)
  have outcome: "fst (makeApiCall_script_js ls net ''voice'' msg opts) =
             (case net \<lparr>url = ''https://api.openai.com/v1/audio/transcriptions'',
                         headers = [(''Authorization'', ''Bearer '' @ k)],
                         body = FormData [(''file'', msg),
                                          (''model'', or_string (model opts) ''whisper-1'')]\<rparr> of
                Inl rejection \<Rightarrow> Inl rejection
              | Inr r \<Rightarrow>
                  if \<not> ok r then Inl (Error (''Voice API error: '' @ show_nat (status r)))
                  else data_text r)"
    unfolding makeApiCall_script_js_voice [of ls k, OF assms]
    by (simp add: callVoiceApi_script_js_def Let_def split: sum.splits)
  from part_000 nonempty unsupported sent outcome show ?thesis
    by blast
qed

theorem C5_voice_dispatch_by_revision_witness:
  "voice_key_only ''glint_voice_api'' = Some ''sk-1''
   \<and> makeApiCall voice_key_only no_network ''voice'' ''say hello'' no_options =
       (Inl (Error voice_message_roman_urdu), [])
   \<and> voice_message_roman_urdu \<noteq> []
   \<and> snd (makeApiCall_script_js voice_key_only transcribing_network ''voice'' ''say hello''
        no_options) = [transcription_request]
   \<and> fst (makeApiCall_script_js voice_key_only transcribing_network ''voice'' ''say hello''
        no_options) = Inr (Some ''hello'')"
proof -
  have k: "voice_key_only ''glint_voice_api'' = Some ''sk-1''"
    by (simp add: voice_key_only_def)
  have l: "or_string (voice_key_only ''selectedLanguage'') ''roman-urdu'' = ''roman-urdu''"
    by (simp add: voice_key_only_def or_string_def)
  have s: "''sk-1'' \<noteq> []"
    by simp
  have r: "\<lparr>url = ''https://api.openai.com/v1/audio/transcriptions'',
            headers = [(''Authorization'', ''Bearer '' @ ''sk-1'')],
            body = FormData [(''file'', ''say hello''),
                             (''model'', or_string (model no_options) ''whisper-1'')]\<rparr>
           = transcription_request"
    by (simp add: transcription_request_def no_options_def or_string_def)
  have t: "transcribing_network transcription_request = Inr transcription"
    by (simp add: transcribing_network_def)
  have d: "ok transcription" "data_text transcription = Inr (Some ''hello'')"
    by (simp_all add: transcription_def)
  note part_000 = C5_voice_dispatch_by_revision
      [of voice_key_only "''sk-1''" no_network "''say hello''" no_options, OF k s]
  note script_js = C5_voice_dispatch_by_revision
      [of voice_key_only "''sk-1''" transcribing_network "''say hello''" no_options, OF k s]
  from part_000 have a: "makeApiCall voice_key_only no_network ''voice'' ''say hello'' no_options =
       (Inl (Error voice_message_roman_urdu), [])"
    and b: "voice_message_roman_urdu \<noteq> []"
    by (simp_all add: l)
  from script_js have c: "snd (makeApiCall_script_js voice_key_only transcribing_network ''voice''
        ''say hello'' no_options) = [transcription_request]"
    by (simp only: r)
  from script_js have "fst (makeApiCall_script_js voice_key_only transcribing_network ''voice''
        ''say hello'' no_options) =
      (case transcribing_network transcription_request of
         Inl rejection \<Rightarrow> Inl rejection
       | Inr r \<Rightarrow> if \<not> ok r then Inl (Error (''Voice API error: '' @ show_nat (status r)))
                  else data_text r)"
    by (simp only: r)
  then have e: "fst (makeApiCall_script_js voice_key_only transcribing_network ''voice''
        ''say hello'' no_options) = Inr (Some ''hello'')"
    by (simp add: t d)
  from k a b c e show ?thesis
    by blast
qed

lemma voice_messages_hd:
  "hd voice_message_roman_urdu = CHR 0xE2" "hd voice_message_english = CHR 0xE2"
  by (simp_all add: voice_message_roman_urdu_def voice_message_english_def)

lemma key_error_not_transport_unsupported:
  "\<not> transport_unsupported (Error (''VOICE'' @ rest))"
proof -
  have "hd (''VOICE'' @ rest) \<noteq> CHR 0xE2"
    by simp
  then show ?thesis
    unfolding transport_unsupported_def using voice_messages_hd
    by (metis js_error.inject(1))
qed

text \<open>
  Claim C6, as stated, fails: with no voice credential the caller of \<open>makeApiCall\<close>
  sees the key-not-configured error, which is neither of the two messages
  \<open>callVoiceApi\<close> throws.
\<close>

theorem C6_voice_unconfigured_counterexample:
  "fst (makeApiCall text_key_only no_network ''voice'' ''say hello'' no_options)
     = Inl (Error ''VOICE API key not configured. Please check settings.'')
   \<and> \<not> transport_unsupported (Error ''VOICE API key not configured. Please check settings.'')"
proof -
  have u: "toUpperCase ''voice'' = ''VOICE''"
    by code_simp
  have "fst (makeApiCall text_key_only no_network ''voice'' ''say hello'' no_options)
     = Inl (Error ''VOICE API key not configured. Please check settings.'')"
    by (simp add: makeApiCall_def getApiKey_def or_empty_def Let_def u text_key_only_def)
  moreover have
    "\<not> transport_unsupported (Error ''VOICE API key not configured. Please check settings.'')"
    using key_error_not_transport_unsupported [of "'' API key not configured. Please check settings.''"]
    by simp
  ultimately show ?thesis
    by simp
qed

text \<open>
  Claim C6, amended. For \<open>voice\<close> with no credential configured, \<open>makeApiCall\<close> fails
  with the configuration error "VOICE API key not configured. Please check settings.",
  a non-empty message, before \<open>callVoiceApi\<close> is reached and without sending a request;
  that error is not the transport-unsupported one.
\<close>

theorem C6_voice_unconfigured_is_configuration_error:
  assumes "ls ''glint_voice_api'' = None \<or> ls ''glint_voice_api'' = Some []"
  shows "makeApiCall ls net ''voice'' msg opts =
           (Inl (Error ''VOICE API key not configured. Please check settings.''), [])
         \<and> \<not> transport_unsupported
               (Error ''VOICE API key not configured. Please check settings.'')"
proof -
  have u: "toUpperCase ''voice'' = ''VOICE''"
    by code_simp
  have "makeApiCall ls net ''voice'' msg opts =
           (Inl (Error ''VOICE API key not configured. Please check settings.''), [])"
    using assms by (auto simp: makeApiCall_def getApiKey_def or_empty_def Let_def u)
  moreover have
    "\<not> transport_unsupported (Error ''VOICE API key not configured. Please check settings.'')"
    using key_error_not_transport_unsupported [of "'' API key not configured. Please check settings.''"]
    by simp
  ultimately show ?thesis
    by simp
qed

theorem C6_voice_unconfigured_is_configuration_error_witness:
  "text_key_only ''glint_voice_api'' = None
   \<and> makeApiCall text_key_only no_network ''voice'' ''say hello'' no_options =
        (Inl (Error ''VOICE API key not configured. Please check settings.''), [])"
proof -
  have k: "text_key_only ''glint_voice_api'' = None"
    by (simp add: text_key_only_def)
  show ?thesis
    using C6_voice_unconfigured_is_configuration_error
      [of text_key_only no_network "''say hello''" no_options] k
    by simp
qed

section \<open>Evaluating the clock readings\<close>

lemma show_nat_small: "n < 10 \<Longrightarrow> show_nat n = [digit_char n]"
  by (simp add: show_nat.simps)

lemma show_nat_big: "\<not> n < 10 \<Longrightarrow> show_nat n = show_nat (n div 10) @ [digit_char (n mod 10)]"
  by (subst show_nat.simps) simp

lemma show_nat_noon: "show_nat 1700000000000 = ''1700000000000''"
  by (simp add: show_nat_small show_nat_big digit_char_def)

lemma show_nat_later: "show_nat 1700000000500 = ''1700000000500''"
  by (simp add: show_nat_small show_nat_big digit_char_def)

lemma new_chat_noon: "new_chat noon = noon_chat"
  by (simp add: new_chat_def noon_def noon_chat_def show_nat_noon)

lemma new_chat_later: "new_chat later = later_chat"
  by (simp add: new_chat_def later_def later_chat_def show_nat_later)

lemma chat_id_new_chat: "chat_id (new_chat clk) = ''chat-'' @ show_nat (now clk)"
  by (simp add: new_chat_def)

lemma chat_prefix_not_inherited: "''chat-'' @ x \<notin> set object_prototype_names"
  by (simp add: object_prototype_names_def)

section \<open>Properties of the conversation store\<close>

subsection \<open>loadChat\<close>

lemma update_chat_title_frame:
  "localStorage (snd (update_chat_title c s)) = localStorage s"
  "timers (snd (update_chat_title c s)) = timers s"
  "messagesEl (snd (update_chat_title c s)) = messagesEl s"
  "currentChatId (snd (update_chat_title c s)) = currentChatId s"
  by (simp_all add: update_chat_title_def split: sum.splits option.splits)

lemma update_chat_title_no_exception:
  "parse_or (glintChatList (localStorage s)) [] = Inr l \<Longrightarrow> fst (update_chat_title c s) = None"
  by (simp add: update_chat_title_def)

lemma update_chat_title_corrupt:
  "glintChatList (localStorage s) = Corrupt \<Longrightarrow> fst (update_chat_title c s) = Some SyntaxError"
  by (simp add: update_chat_title_def parse_or_def)

lemma getChatMedia_array:
  "property_key (currentChatId s) \<notin> set object_prototype_names \<Longrightarrow>
     getChatMedia s \<noteq> InheritedValue"
  by (simp add: getChatMedia_def get_property_def split: sum.splits option.splits)

lemma loadChat_localStorage: "localStorage (snd (loadChat c s)) = localStorage s"
  by (simp add: loadChat_def Let_def update_chat_title_frame
      split: option.splits chat_media.splits)

lemma loadChat_timers: "timers (snd (loadChat c s)) = timers s"
  by (simp add: loadChat_def Let_def update_chat_title_frame
      split: option.splits chat_media.splits)

lemma loadChat_no_messagesEl: "messagesEl s = None \<Longrightarrow> loadChat c s = (None, s)"
  by (simp add: loadChat_def)

lemma loadChat_currentChatId:
  "messagesEl s \<noteq> None \<Longrightarrow> currentChatId (snd (loadChat c s)) = Some c"
  by (auto simp: loadChat_def Let_def update_chat_title_frame split: chat_media.splits)

lemma loadChat_view:
  "messagesEl s \<noteq> None \<Longrightarrow>
     messagesEl (snd (loadChat c s)) =
       (if html_truthy (messages_html (localStorage s) c) then messages_html (localStorage s) c
        else Some (welcome_outerHTML s))"
  by (auto simp: loadChat_def Let_def update_chat_title_frame welcome_outerHTML_def
      split: chat_media.splits)

lemma loadChat_messagesEl_present:
  "messagesEl s \<noteq> None \<Longrightarrow> messagesEl (snd (loadChat c s)) \<noteq> None"
  by (auto simp: loadChat_view html_truthy_def split: option.splits)

lemma loadChat_no_exception:
  assumes "parse_or (glintChatList (localStorage s)) [] = Inr l"
    and "c \<notin> set object_prototype_names"
  shows "fst (loadChat c s) = None"
proof (cases "messagesEl s")
  case None
  then show ?thesis
    by (simp add: loadChat_def)
next
  case (Some old)
  let ?s1 = "s\<lparr>currentChatId := Some c\<rparr>"
  let ?s2 = "?s1\<lparr>messagesEl := messages_html (localStorage ?s1) c\<rparr>"
  have "getChatMedia ?s2 \<noteq> InheritedValue"
    using assms(2) by (intro getChatMedia_array) (simp add: property_key_def)
  then obtain chatMedia where "getChatMedia ?s2 = MediaArray chatMedia"
    by (cases "getChatMedia ?s2") simp_all
  with Some assms(1) show ?thesis
    by (simp add: loadChat_def Let_def update_chat_title_no_exception)
qed

lemma loadChat_corrupt:
  assumes "glintChatList (localStorage s) = Corrupt" and "messagesEl s \<noteq> None"
    and "c \<notin> set object_prototype_names"
  shows "fst (loadChat c s) = Some SyntaxError"
proof -
  from assms(2) obtain old where m: "messagesEl s = Some old"
    by blast
  let ?s1 = "s\<lparr>currentChatId := Some c\<rparr>"
  let ?s2 = "?s1\<lparr>messagesEl := messages_html (localStorage ?s1) c\<rparr>"
  have "getChatMedia ?s2 \<noteq> InheritedValue"
    using assms(3) by (intro getChatMedia_array) (simp add: property_key_def)
  then obtain chatMedia where "getChatMedia ?s2 = MediaArray chatMedia"
    by (cases "getChatMedia ?s2") simp_all
  with m assms(1) show ?thesis
    by (simp add: loadChat_def Let_def update_chat_title_corrupt)
qed

subsection \<open>startNewChat\<close>

lemma startNewChat_unfold:
  assumes "parse_or (glintChatList (localStorage s)) [] = Inr chatList"
  shows "startNewChat clk False s =
     loadChat (chat_id (new_chat clk))
       (s\<lparr>localStorage := (localStorage s)\<lparr>glintChatList := Parsed (new_chat clk # chatList)\<rparr>,
          url_chatId := Some (chat_id (new_chat clk)),
          currentChatId := Some (chat_id (new_chat clk))\<rparr>)"
  using assms by (simp add: startNewChat_def new_chat_def Let_def)

lemma startNewChat_registry:
  assumes "parse_or (glintChatList (localStorage s)) [] = Inr chatList"
  shows "glintChatList (localStorage (snd (startNewChat clk r s))) = Parsed (new_chat clk # chatList)"
  using assms by (simp add: startNewChat_def new_chat_def Let_def loadChat_localStorage)

lemma new_chat_id_not_inherited: "chat_id (new_chat clk) \<notin> set object_prototype_names"
  unfolding chat_id_new_chat by (rule chat_prefix_not_inherited)

lemma startNewChat_no_exception:
  assumes "parse_or (glintChatList (localStorage s)) [] = Inr chatList"
  shows "fst (startNewChat clk r s) = None"
proof (cases r)
  case True
  with assms show ?thesis
    by (simp add: startNewChat_def Let_def)
next
  case False
  have "parse_or (glintChatList (localStorage
      (s\<lparr>localStorage := (localStorage s)\<lparr>glintChatList := Parsed (new_chat clk # chatList)\<rparr>,
         url_chatId := Some (chat_id (new_chat clk)),
         currentChatId := Some (chat_id (new_chat clk))\<rparr>))) [] = Inr (new_chat clk # chatList)"
    by (simp add: parse_or_def)
  then have "fst (loadChat (chat_id (new_chat clk))
      (s\<lparr>localStorage := (localStorage s)\<lparr>glintChatList := Parsed (new_chat clk # chatList)\<rparr>,
         url_chatId := Some (chat_id (new_chat clk)),
         currentChatId := Some (chat_id (new_chat clk))\<rparr>)) = None"
    using new_chat_id_not_inherited by (rule loadChat_no_exception)
  with False show ?thesis
    by (simp only: startNewChat_unfold [OF assms])
qed

lemma startNewChat_head_and_distinct:
  assumes "parse_or (glintChatList (localStorage s)) [] = Inr chatList"
    and "distinct (map chat_id chatList)"
    and "chat_id (new_chat clk) \<notin> set (map chat_id chatList)"
  shows "\<exists>l. glintChatList (localStorage (snd (startNewChat clk r s))) = Parsed (new_chat clk # l)
     \<and> distinct (map chat_id (new_chat clk # l))"
  using assms by (simp add: startNewChat_registry)

lemma startNewChat_corrupt:
  "glintChatList (localStorage s) = Corrupt \<Longrightarrow> startNewChat clk r s = (Some SyntaxError, s)"
  by (simp add: startNewChat_def parse_or_def)

lemma chat_page_registry: "parse_or (glintChatList (localStorage chat_page)) [] = Inr []"
  by (simp add: chat_page_def empty_storage_def parse_or_def)

text \<open>
  Claim C3 fails on the code. The id of a new chat is the clock reading alone. Two calls
  of \<open>startNewChat\<close> that read the same millisecond, starting from an empty registry,
  leave a registry with two chats of the id \<open>chat-1700000000000\<close>: the second chat's id
  was in the registry before the call, and the ids are no longer distinct.
\<close>

theorem C3_same_millisecond_duplicate_id:
  "glintChatList (localStorage (snd (startNewChat noon False
      (snd (startNewChat noon False chat_page))))) = Parsed [noon_chat, noon_chat]
   \<and> chat_id noon_chat = ''chat-1700000000000''
   \<and> \<not> distinct (map chat_id [noon_chat, noon_chat])"
proof -
  let ?s1 = "snd (startNewChat noon False chat_page)"
  have "glintChatList (localStorage ?s1) = Parsed [noon_chat]"
    using startNewChat_registry [OF chat_page_registry, of noon False]
    by (simp only: new_chat_noon)
  then have "parse_or (glintChatList (localStorage ?s1)) [] = Inr [noon_chat]"
    by (simp add: parse_or_def)
  from startNewChat_registry [OF this, of noon False]
  have "glintChatList (localStorage (snd (startNewChat noon False ?s1)))
      = Parsed [noon_chat, noon_chat]"
    by (simp only: new_chat_noon)
  then show ?thesis
    by (simp add: noon_chat_def)
qed

subsection \<open>saveCurrentChat and loadChat\<close>

lemma saveCurrentChat_messages_html:
  assumes "currentChatId s = Some c" and "c \<noteq> []" and "messagesEl s = Some children"
  shows "messages_html (localStorage (saveCurrentChat s)) = (messages_html (localStorage s))(c \<mapsto> children)"
  using assms by (simp add: saveCurrentChat_def truthy_def property_key_def)

lemma loadChat_messagesEl:
  assumes "messages_html (localStorage s) c = Some (n # ns)" and "messagesEl s \<noteq> None"
  shows "messagesEl (snd (loadChat c s)) = Some (n # ns)"
    and "currentChatId (snd (loadChat c s)) = Some c"
proof -
  from assms(1) have t: "html_truthy (messages_html (localStorage s) c)"
    by (simp add: html_truthy_def)
  from assms loadChat_view [OF assms(2), of c] t
  show "messagesEl (snd (loadChat c s)) = Some (n # ns)"
    by simp
  from loadChat_currentChatId [OF assms(2)]
  show "currentChatId (snd (loadChat c s)) = Some c" .
qed

lemma addMessage_other_role:
  assumes "messagesEl s = Some children" and "truthy (currentChatId s)" and "type \<noteq> ''user''"
  shows "addMessage clk text type s =
     prepend \<lparr>className = ''bubble '' @ type, content = TextContent text\<rparr> s"
  using assms by (simp add: addMessage_def Let_def)

lemma save_load_round_trip:
  assumes "currentChatId a = Some c" and "c \<noteq> []" and "messagesEl a = Some (n # ns)"
    and "localStorage s' = localStorage (saveCurrentChat a)"
    and "messagesEl s' \<noteq> None"
  shows "messagesEl (snd (loadChat c s')) = Some (n # ns)"
    and "currentChatId (snd (loadChat c s')) = Some c"
proof -
  from saveCurrentChat_messages_html [OF assms(1,2,3)] assms(4)
  have "messages_html (localStorage s') c = Some (n # ns)"
    by simp
  from loadChat_messagesEl [OF this assms(5)]
  show "messagesEl (snd (loadChat c s')) = Some (n # ns)"
    and "currentChatId (snd (loadChat c s')) = Some c"
    by simp_all
qed

lemma addMessage_save_load:
  assumes "currentChatId s = Some c" and "c \<noteq> []" and "messagesEl s = Some history"
    and "localStorage s' = localStorage (saveCurrentChat (addMessage clk text type s))"
    and "messagesEl s' \<noteq> None"
  shows "messagesEl (snd (loadChat c s')) =
     Some ((if type = ''user''
            then [\<lparr>className = ''bubble bot loading-message'',
                   content = InnerHTML (loading_markup (detectApiType text))\<rparr>]
            else [])
           @ \<lparr>className = ''bubble '' @ type, content = TextContent text\<rparr> # history)"
proof -
  have t: "truthy (currentChatId s)"
    using assms(1,2) by (simp add: truthy_def)
  have c: "currentChatId (addMessage clk text type s) = Some c"
    using assms(1,3) t by (simp add: addMessage_def prepend_def Let_def)
  show ?thesis
  proof (cases "type = ''user''")
    case True
    have "messagesEl (addMessage clk text type s) =
        Some (\<lparr>className = ''bubble bot loading-message'',
                content = InnerHTML (loading_markup (detectApiType text))\<rparr>
              # \<lparr>className = ''bubble '' @ type, content = TextContent text\<rparr> # history)"
      using assms(3) t True by (simp add: addMessage_def prepend_def Let_def)
    from save_load_round_trip(1) [OF c assms(2) this assms(4,5)] True show ?thesis
      by simp
  next
    case False
    have "messagesEl (addMessage clk text type s) =
        Some (\<lparr>className = ''bubble '' @ type, content = TextContent text\<rparr> # history)"
      using assms(3) t False by (simp add: addMessage_def prepend_def Let_def)
    from save_load_round_trip(1) [OF c assms(2) this assms(4,5)] False show ?thesis
      by simp
  qed
qed

text \<open>
  Claim C4. On a page with an active chat \<open>c\<close> and a message view, put an entry in front
  of the messages and call \<open>saveCurrentChat\<close>. On every page that finds the same
  \<open>localStorage\<close> (the page after a reload) and has a message view, \<open>loadChat c\<close>
  shows the entry first, followed by the messages there were, and makes \<open>c\<close> the active
  chat.
\<close>

theorem C4_save_then_load_round_trip:
  assumes "currentChatId s = Some c" and "c \<noteq> []" and "messagesEl s = Some history"
    and "localStorage s' = localStorage (saveCurrentChat (prepend entry s))"
    and "messagesEl s' \<noteq> None"
  shows "messagesEl (snd (loadChat c s')) = Some (entry # history)
       \<and> currentChatId (snd (loadChat c s')) = Some c"
proof -
  have "currentChatId (prepend entry s) = Some c"
    and "messagesEl (prepend entry s) = Some (entry # history)"
    using assms(1,3) by (simp_all add: prepend_def)
  from save_load_round_trip [OF this(1) assms(2) this(2) assms(4,5)] show ?thesis
    by simp
qed

theorem C4_save_then_load_round_trip_witness:
  "currentChatId active_page = Some ''chat-1'' \<and> messagesEl active_page = Some []
   \<and> localStorage reloaded_page = localStorage (saveCurrentChat (prepend hello_bubble active_page))
   \<and> currentChatId reloaded_page = None
   \<and> messagesEl (snd (loadChat ''chat-1'' reloaded_page)) = Some [hello_bubble]
   \<and> currentChatId (snd (loadChat ''chat-1'' reloaded_page)) = Some ''chat-1''"
proof -
  have a: "currentChatId active_page = Some ''chat-1''"
    by (simp add: active_page_def)
  have b: "''chat-1'' \<noteq> []"
    by simp
  have c: "messagesEl active_page = Some []"
    by (simp add: active_page_def chat_page_def)
  have d: "localStorage reloaded_page = localStorage (saveCurrentChat (prepend hello_bubble active_page))"
    by (simp add: reloaded_page_def)
  have e: "messagesEl reloaded_page \<noteq> None"
    by (simp add: reloaded_page_def chat_page_def)
  have f: "currentChatId reloaded_page = None"
    by (simp add: reloaded_page_def chat_page_def)
  from C4_save_then_load_round_trip [OF a b c d e] a c d f show ?thesis
    by simp
qed

subsection \<open>Corrupt storage\<close>

lemma getChatMedia_corrupt:
  "glintMediaStorage (localStorage s) = Corrupt \<Longrightarrow> getChatMedia s = MediaArray []"
  by (simp add: getChatMedia_def parse_or_def)

lemma savePhotoToStorage_fails_closed:
  assumes "glintMediaStorage (localStorage s) = Corrupt \<or> \<not> truthy (currentChatId s)"
  shows "savePhotoToStorage clk d f s = (None, s)"
  using assms by (auto simp: savePhotoToStorage_def parse_or_def Let_def)

lemma corrupt_page_registry: "glintChatList (localStorage corrupt_page) = Corrupt"
  by (simp add: corrupt_page_def)

lemma corrupt_page_fields:
  "messagesEl corrupt_page = Some []" "currentChatId corrupt_page = None"
  "timers corrupt_page = []"
  by (simp_all add: corrupt_page_def chat_page_def)

text \<open>
  Claim C7 fails on the code for the chat registry. \<open>getChatMedia\<close> catches the
  \<open>SyntaxError\<close> of a corrupt media index and returns the empty list, but
  \<open>startNewChat\<close> and \<open>loadChat\<close> parse the registry outside any \<open>try\<close>: on a store
  whose registry is not JSON, \<open>startNewChat\<close> throws to its caller and creates no
  chat, and \<open>loadChat\<close> throws to its caller.
\<close>

theorem C7_corrupt_registry_propagates:
  "startNewChat noon False corrupt_page = (Some SyntaxError, corrupt_page)
   \<and> fst (loadChat ''chat-1700000000000'' corrupt_page) = Some SyntaxError"
proof -
  have m: "messagesEl corrupt_page \<noteq> None"
    by (simp add: corrupt_page_fields)
  have "''chat-'' @ ''1700000000000'' \<notin> set object_prototype_names"
    by (rule chat_prefix_not_inherited)
  then have n: "''chat-1700000000000'' \<notin> set object_prototype_names"
    by simp
  from startNewChat_corrupt [OF corrupt_page_registry, of noon False]
    loadChat_corrupt [OF corrupt_page_registry m n]
  show ?thesis
    by simp
qed

subsection \<open>addMessage with no active chat\<close>

lemma addMessage_corrupt:
  assumes "glintChatList (localStorage s) = Corrupt" and "currentChatId s = None"
  shows "addMessage clk text ''user'' s = s"
  using assms by (simp add: addMessage_def startNewChat_corrupt truthy_def)

lemma addMessage_guard:
  assumes "messagesEl s = None \<or> \<not> truthy (currentChatId s)"
    and "parse_or (glintChatList (localStorage s)) [] = Inr chatList"
  shows "addMessage clk text ''user'' s =
     (snd (startNewChat clk False s))\<lparr>timers :=
        timers (snd (startNewChat clk False s)) @ [(500, AddMessage text ''user'')]\<rparr>"
proof -
  obtain e s1 where eq: "startNewChat clk False s = (e, s1)"
    by (cases "startNewChat clk False s")
  with startNewChat_no_exception [OF assms(2), of clk False]
  have "startNewChat clk False s = (None, s1)"
    by simp
  with assms(1) show ?thesis
    by (auto simp: addMessage_def)
qed

lemma startNewChat_timers: "timers (snd (startNewChat clk False s)) = timers s"
  by (simp add: startNewChat_def Let_def loadChat_timers split: sum.splits)

lemma addMessage_guard_timers:
  assumes "messagesEl s = None \<or> \<not> truthy (currentChatId s)"
    and "parse_or (glintChatList (localStorage s)) [] = Inr chatList"
  shows "timers (addMessage clk text ''user'' s) = timers s @ [(500, AddMessage text ''user'')]"
  by (simp add: addMessage_guard [OF assms] startNewChat_timers)

lemma addMessage_guard_registry:
  assumes "messagesEl s = None \<or> \<not> truthy (currentChatId s)"
    and "parse_or (glintChatList (localStorage s)) [] = Inr chatList"
  shows "glintChatList (localStorage (addMessage clk text ''user'' s)) = Parsed (new_chat clk # chatList)"
  by (simp add: addMessage_guard [OF assms] startNewChat_registry [OF assms(2)])

lemma addMessage_guard_no_messagesEl:
  assumes "messagesEl s = None"
    and "parse_or (glintChatList (localStorage s)) [] = Inr chatList"
  shows "messagesEl (addMessage clk text ''user'' s) = None"
proof -
  from assms(1) have g: "messagesEl s = None \<or> \<not> truthy (currentChatId s)"
    by simp
  show ?thesis
    using assms(1)
    by (simp add: addMessage_guard [OF g assms(2)] startNewChat_unfold [OF assms(2)]
        loadChat_no_messagesEl)
qed

lemma addMessage_guard_view:
  assumes "messagesEl s \<noteq> None" and "\<not> truthy (currentChatId s)"
    and "parse_or (glintChatList (localStorage s)) [] = Inr chatList"
  shows "currentChatId (addMessage clk text ''user'' s) = Some (chat_id (new_chat clk))"
    and "messagesEl (addMessage clk text ''user'' s) =
           (if html_truthy (messages_html (localStorage s) (chat_id (new_chat clk)))
            then messages_html (localStorage s) (chat_id (new_chat clk))
            else Some (welcome_outerHTML s))"
proof -
  from assms(2) have g: "messagesEl s = None \<or> \<not> truthy (currentChatId s)"
    by simp
  let ?s2 = "s\<lparr>localStorage := (localStorage s)\<lparr>glintChatList := Parsed (new_chat clk # chatList)\<rparr>,
          url_chatId := Some (chat_id (new_chat clk)),
          currentChatId := Some (chat_id (new_chat clk))\<rparr>"
  have m2: "messagesEl ?s2 \<noteq> None"
    using assms(1) by simp
  show "currentChatId (addMessage clk text ''user'' s) = Some (chat_id (new_chat clk))"
    using loadChat_currentChatId [OF m2]
    by (simp add: addMessage_guard [OF g assms(3)] startNewChat_unfold [OF assms(3)])
  show "messagesEl (addMessage clk text ''user'' s) =
           (if html_truthy (messages_html (localStorage s) (chat_id (new_chat clk)))
            then messages_html (localStorage s) (chat_id (new_chat clk))
            else Some (welcome_outerHTML s))"
    using loadChat_view [OF m2, of "chat_id (new_chat clk)"]
    by (simp add: addMessage_guard [OF g assms(3)] startNewChat_unfold [OF assms(3)]
        welcome_outerHTML_def)
qed

lemma addMessage_active_chat:
  assumes "messagesEl s = Some children" and "truthy (currentChatId s)"
  shows "messagesEl (addMessage clk text ''user'' s) =
           Some (\<lparr>className = ''bubble bot loading-message'',
                   content = InnerHTML (loading_markup (detectApiType text))\<rparr>
                 # \<lparr>className = ''bubble user'', content = TextContent text\<rparr> # children)"
    and "timers (addMessage clk text ''user'' s) = timers s @
           [(1000, Respond text (detectApiType text)
              \<lparr>className = ''bubble bot loading-message'',
               content = InnerHTML (loading_markup (detectApiType text))\<rparr>)]"
    and "localStorage (addMessage clk text ''user'' s) = localStorage s"
  using assms by (simp_all add: addMessage_def prepend_def Let_def)

text \<open>
  Where the recovery works: on a page with the message view, no active chat and a
  registry that is absent or well-formed, \<open>addMessage\<close> for a user message creates one
  chat, shows that chat's stored history or else the welcome message, and sets one retry;
  the retry, run once its timer has left the queue, puts the message in that view under
  the loading placeholder and sets only the reply timer.
\<close>

lemma addMessage_recovers_when_registry_readable:
  assumes "messagesEl s \<noteq> None" and "\<not> truthy (currentChatId s)"
    and "parse_or (glintChatList (localStorage s)) [] = Inr chatList"
  shows "timers (addMessage clk text ''user'' s) = timers s @ [(500, AddMessage text ''user'')]"
    and "glintChatList (localStorage (addMessage clk text ''user'' s))
           = Parsed (new_chat clk # chatList)"
    and "\<exists>shown. messagesEl (addMessage clk text ''user'' s) = Some shown
           \<and> Some shown = (if html_truthy (messages_html (localStorage s) (chat_id (new_chat clk)))
                then messages_html (localStorage s) (chat_id (new_chat clk))
                else Some (welcome_outerHTML s))
           \<and> messagesEl (addMessage clk' text ''user''
               ((addMessage clk text ''user'' s)\<lparr>timers := timers s\<rparr>))
             = Some (\<lparr>className = ''bubble bot loading-message'',
                       content = InnerHTML (loading_markup (detectApiType text))\<rparr>
                     # \<lparr>className = ''bubble user'', content = TextContent text\<rparr> # shown)"
    and "timers (addMessage clk' text ''user''
               ((addMessage clk text ''user'' s)\<lparr>timers := timers s\<rparr>))
         = timers s @ [(1000, Respond text (detectApiType text)
              \<lparr>className = ''bubble bot loading-message'',
               content = InnerHTML (loading_markup (detectApiType text))\<rparr>)]"
    and "glintChatList (localStorage (addMessage clk' text ''user''
               ((addMessage clk text ''user'' s)\<lparr>timers := timers s\<rparr>)))
         = Parsed (new_chat clk # chatList)"
proof -
  let ?s1 = "addMessage clk text ''user'' s"
  let ?s1' = "?s1\<lparr>timers := timers s\<rparr>"
  from assms(2) have g: "messagesEl s = None \<or> \<not> truthy (currentChatId s)"
    by simp
  note t1 = addMessage_guard_timers [OF g assms(3), of clk "text"]
  note r1 = addMessage_guard_registry [OF g assms(3), of clk "text"]
  note c1 = addMessage_guard_view [OF assms, of clk "text"]
  from c1(2) obtain shown where ch: "messagesEl ?s1 = Some shown"
    by (auto simp: html_truthy_def split: option.splits if_splits)
  then have m: "messagesEl ?s1' = Some shown"
    by simp
  have t: "truthy (currentChatId ?s1')"
    by (simp add: c1(1) chat_id_new_chat truthy_def)
  note second = addMessage_active_chat [OF m t, of clk' "text"]
  show "timers ?s1 = timers s @ [(500, AddMessage text ''user'')]"
    by (rule t1)
  show "glintChatList (localStorage ?s1) = Parsed (new_chat clk # chatList)"
    by (rule r1)
  show "\<exists>shown. messagesEl ?s1 = Some shown
           \<and> Some shown = (if html_truthy (messages_html (localStorage s) (chat_id (new_chat clk)))
                then messages_html (localStorage s) (chat_id (new_chat clk))
                else Some (welcome_outerHTML s))
           \<and> messagesEl (addMessage clk' text ''user'' ?s1')
             = Some (\<lparr>className = ''bubble bot loading-message'',
                       content = InnerHTML (loading_markup (detectApiType text))\<rparr>
                     # \<lparr>className = ''bubble user'', content = TextContent text\<rparr> # shown)"
    using ch c1(2) second(1) by auto
  show "timers (addMessage clk' text ''user'' ?s1') = timers s @
      [(1000, Respond text (detectApiType text)
         \<lparr>className = ''bubble bot loading-message'',
          content = InnerHTML (loading_markup (detectApiType text))\<rparr>)]"
    by (simp add: second(2))
  show "glintChatList (localStorage (addMessage clk' text ''user'' ?s1'))
      = Parsed (new_chat clk # chatList)"
    by (simp add: second(3) r1)
qed

lemma no_messages_page_fields:
  "messagesEl no_messages_page = None" "timers no_messages_page = []"
  "parse_or (glintChatList (localStorage no_messages_page)) [] = Inr []"
  by (simp_all add: no_messages_page_def chat_page_def empty_storage_def parse_or_def)

text \<open>
  Claim C8 fails on the code in two ways. Over a store whose chat registry is not JSON,
  \<open>addMessage\<close> for a user message with no active chat returns the page as it was: no
  chat, no message in the view, no retry set; the message is dropped. On a page without
  a \<open>#messages\<close> element the retry meets the same guard, creates a second chat and sets
  a further retry, and the message is still not written.
\<close>

theorem C8_message_dropped_or_retried_again:
  "addMessage noon ''hello'' ''user'' corrupt_page = corrupt_page
   \<and> messagesEl corrupt_page = Some [] \<and> currentChatId corrupt_page = None
   \<and> timers corrupt_page = []
   \<and> timers (addMessage noon ''hello'' ''user'' no_messages_page)
       = [(500, AddMessage ''hello'' ''user'')]
   \<and> timers (addMessage later ''hello'' ''user''
         ((addMessage noon ''hello'' ''user'' no_messages_page)\<lparr>timers := []\<rparr>))
       = [(500, AddMessage ''hello'' ''user'')]
   \<and> messagesEl (addMessage later ''hello'' ''user''
         ((addMessage noon ''hello'' ''user'' no_messages_page)\<lparr>timers := []\<rparr>)) = None
   \<and> glintChatList (localStorage (addMessage later ''hello'' ''user''
         ((addMessage noon ''hello'' ''user'' no_messages_page)\<lparr>timers := []\<rparr>)))
       = Parsed [later_chat, noon_chat]"
proof -
  let ?s1 = "addMessage noon ''hello'' ''user'' no_messages_page"
  let ?s1' = "?s1\<lparr>timers := []\<rparr>"
  let ?s2 = "addMessage later ''hello'' ''user'' ?s1'"
  have a: "addMessage noon ''hello'' ''user'' corrupt_page = corrupt_page"
    by (rule addMessage_corrupt [OF corrupt_page_registry corrupt_page_fields(2)])
  have g0: "messagesEl no_messages_page = None \<or> \<not> truthy (currentChatId no_messages_page)"
    by (simp add: no_messages_page_fields)
  have b: "timers ?s1 = [(500, AddMessage ''hello'' ''user'')]"
    using addMessage_guard_timers [OF g0 no_messages_page_fields(3), of noon "''hello''"]
    by (simp add: no_messages_page_fields)
  have "messagesEl ?s1 = None"
    by (rule addMessage_guard_no_messagesEl [OF no_messages_page_fields(1,3)])
  then have m1: "messagesEl ?s1' = None"
    by simp
  have "glintChatList (localStorage ?s1) = Parsed [noon_chat]"
    using addMessage_guard_registry [OF g0 no_messages_page_fields(3), of noon "''hello''"]
    by (simp only: new_chat_noon)
  then have p1: "parse_or (glintChatList (localStorage ?s1')) [] = Inr [noon_chat]"
    by (simp add: parse_or_def)
  from m1 have g1: "messagesEl ?s1' = None \<or> \<not> truthy (currentChatId ?s1')"
    by simp
  have c: "timers ?s2 = [(500, AddMessage ''hello'' ''user'')]"
    using addMessage_guard_timers [OF g1 p1, of later "''hello''"]
    by simp
  have d: "messagesEl ?s2 = None"
    by (rule addMessage_guard_no_messagesEl [OF m1 p1])
  have e: "glintChatList (localStorage ?s2) = Parsed [later_chat, noon_chat]"
    using addMessage_guard_registry [OF g1 p1, of later "''hello''"]
    by (simp only: new_chat_later)
  from a b c d e corrupt_page_fields show ?thesis
    by blast
qed

section \<open>Properties of the media storage\<close>

lemma get_property_not_inherited:
  "key \<notin> set object_prototype_names \<Longrightarrow> get_property obj key \<noteq> Inherited"
  by (simp add: get_property_def split: option.splits)

lemma get_property_chat_id: "get_property obj (''chat-'' @ x) \<noteq> Inherited"
  by (rule get_property_not_inherited) (simp add: object_prototype_names_def)

lemma push_media_ok:
  assumes "get_property m c \<noteq> Inherited"
  shows "push_media m c x = Inr (m(c \<mapsto> (case m c of None \<Rightarrow> [] | Some l \<Rightarrow> l) @ [x]))"
  using assms by (simp add: push_media_def get_property_def Let_def split: option.splits if_splits)

lemma push_media_inherited:
  assumes "get_property m c = Inherited"
  shows "push_media m c x = Inl TypeError"
  using assms by (simp add: push_media_def Let_def)

text \<open>
  The writes that fail write nothing. With the active chat id naming an inherited
  property of the index (a page opened with \<open>?chatId=constructor\<close>),
  \<open>savePhotoToStorage\<close> returns \<open>null\<close>, the \<open>onload\<close> handler of
  \<open>saveVoiceToStorage\<close> throws and its promise is never settled; the page and the store
  are as before.
\<close>

lemma media_write_inherited_fails_closed:
  assumes "currentChatId s = Some c" and "c \<noteq> []"
    and "parse_or (glintMediaStorage (localStorage s)) Map.empty = Inr m"
    and "get_property m c = Inherited"
  shows "savePhotoToStorage clk d f s = (None, s)"
    and "saveVoiceToStorage_onload clk d f s = (Inl TypeError, s)"
    and "saveVoiceToStorage clk (Some d) f s = (None, s)"
proof -
  show "savePhotoToStorage clk d f s = (None, s)"
    using assms
    by (simp add: savePhotoToStorage_def truthy_def property_key_def Let_def push_media_inherited)
  show onload: "saveVoiceToStorage_onload clk d f s = (Inl TypeError, s)"
    using assms
    by (simp add: saveVoiceToStorage_onload_def property_key_def Let_def push_media_inherited)
  show "saveVoiceToStorage clk (Some d) f s = (None, s)"
    using assms(1,2) by (simp add: saveVoiceToStorage_def truthy_def onload)
qed

lemma constructor_page_write_fails:
  "savePhotoToStorage noon ''data:image/png;base64,CCCC'' ''cat.png'' constructor_page
     = (None, constructor_page)"
proof -
  have a: "currentChatId constructor_page = Some ''constructor''"
    by (simp add: constructor_page_def)
  have b: "''constructor'' \<noteq> []"
    by simp
  have c: "parse_or (glintMediaStorage (localStorage constructor_page)) Map.empty = Inr stored_media"
    by (simp add: constructor_page_def media_page_def parse_or_def)
  have d: "get_property stored_media ''constructor'' = Inherited"
    by (simp add: get_property_def stored_media_def object_prototype_names_def)
  show ?thesis
    by (rule media_write_inherited_fails_closed(1) [OF a b c d])
qed

lemma saveVoiceToStorage_fails_closed:
  assumes "glintMediaStorage (localStorage s) = Corrupt \<or> \<not> truthy (currentChatId s) \<or> read = None"
  shows "snd (saveVoiceToStorage clk read f s) = s"
    and "\<forall>voiceId. fst (saveVoiceToStorage clk read f s) \<noteq> Some (Inr voiceId)"
  using assms
  by (auto simp: saveVoiceToStorage_def saveVoiceToStorage_onload_def parse_or_def Let_def
      split: option.splits)

text \<open>
  Claim C10. With a chat \<open>c\<close> active, a media index that is absent or well-formed, and
  \<open>mediaStorage[c]\<close> not a value inherited from \<open>Object.prototype\<close> (so for every id
  \<open>startNewChat\<close> makes, and for every id that has a list in the index),
  \<open>savePhotoToStorage\<close>, the \<open>onload\<close> handler of \<open>saveVoiceToStorage\<close> and
  \<open>saveVoiceToStorage\<close> as a whole each change nothing but the media index; in the new
  index the list of every other chat id is what it was, and the list of \<open>c\<close> is its old
  list (empty when it had none) with the new asset at the end; the id returned is the
  asset's.
\<close>

theorem C10_media_write_frame:
  assumes "currentChatId s = Some c" and "c \<noteq> []"
    and "parse_or (glintMediaStorage (localStorage s)) Map.empty = Inr m"
    and "get_property m c \<noteq> Inherited"
  shows "(\<exists>m' asset.
            savePhotoToStorage clk d f s =
              (Some (media_id asset),
               s\<lparr>localStorage := (localStorage s)\<lparr>glintMediaStorage := Parsed m'\<rparr>\<rparr>)
          \<and> (\<forall>c'. c' \<noteq> c \<longrightarrow> m' c' = m c')
          \<and> m' c = Some ((case m c of None \<Rightarrow> [] | Some l \<Rightarrow> l) @ [asset])
          \<and> media_data asset = d \<and> media_fileName asset = f \<and> media_type asset = ''photo'')
       \<and> (\<exists>m' asset.
            saveVoiceToStorage_onload clk d f s =
              (Inr (media_id asset),
               s\<lparr>localStorage := (localStorage s)\<lparr>glintMediaStorage := Parsed m'\<rparr>\<rparr>)
          \<and> saveVoiceToStorage clk (Some d) f s =
              (Some (Inr (media_id asset)),
               s\<lparr>localStorage := (localStorage s)\<lparr>glintMediaStorage := Parsed m'\<rparr>\<rparr>)
          \<and> (\<forall>c'. c' \<noteq> c \<longrightarrow> m' c' = m c')
          \<and> m' c = Some ((case m c of None \<Rightarrow> [] | Some l \<Rightarrow> l) @ [asset])
          \<and> media_data asset = d \<and> media_fileName asset = f \<and> media_type asset = ''voice'')"
proof (intro conjI)
  let ?photo = "\<lparr>media_id = ''photo-'' @ show_nat (now clk), media_chatId = currentChatId s,
      media_data = d, media_fileName = f, media_type = ''photo'',
      media_timestamp = isoString clk, media_duration = None\<rparr>"
  let ?m' = "m(c \<mapsto> (case m c of None \<Rightarrow> [] | Some l \<Rightarrow> l) @ [?photo])"
  have "savePhotoToStorage clk d f s =
      (Some (media_id ?photo),
       s\<lparr>localStorage := (localStorage s)\<lparr>glintMediaStorage := Parsed ?m'\<rparr>\<rparr>)"
    using assms(1-3)
    by (simp add: savePhotoToStorage_def truthy_def property_key_def Let_def
        push_media_ok [OF assms(4)])
  then show "\<exists>m' asset.
            savePhotoToStorage clk d f s =
              (Some (media_id asset),
               s\<lparr>localStorage := (localStorage s)\<lparr>glintMediaStorage := Parsed m'\<rparr>\<rparr>)
          \<and> (\<forall>c'. c' \<noteq> c \<longrightarrow> m' c' = m c')
          \<and> m' c = Some ((case m c of None \<Rightarrow> [] | Some l \<Rightarrow> l) @ [asset])
          \<and> media_data asset = d \<and> media_fileName asset = f \<and> media_type asset = ''photo''"
    by (intro exI [of _ ?m'] exI [of _ ?photo]) simp
next
  let ?voice = "\<lparr>media_id = ''voice-'' @ show_nat (now clk), media_chatId = currentChatId s,
      media_data = d, media_fileName = f, media_type = ''voice'',
      media_timestamp = isoString clk, media_duration = Some 0\<rparr>"
  let ?m' = "m(c \<mapsto> (case m c of None \<Rightarrow> [] | Some l \<Rightarrow> l) @ [?voice])"
  have onload: "saveVoiceToStorage_onload clk d f s =
      (Inr (media_id ?voice),
       s\<lparr>localStorage := (localStorage s)\<lparr>glintMediaStorage := Parsed ?m'\<rparr>\<rparr>)"
    using assms(1-3)
    by (simp add: saveVoiceToStorage_onload_def property_key_def Let_def
        push_media_ok [OF assms(4)])
  have whole: "saveVoiceToStorage clk (Some d) f s =
      (Some (Inr (media_id ?voice)),
       s\<lparr>localStorage := (localStorage s)\<lparr>glintMediaStorage := Parsed ?m'\<rparr>\<rparr>)"
    using assms(1,2) by (simp add: saveVoiceToStorage_def truthy_def onload)
  from onload whole show "\<exists>m' asset.
            saveVoiceToStorage_onload clk d f s =
              (Inr (media_id asset),
               s\<lparr>localStorage := (localStorage s)\<lparr>glintMediaStorage := Parsed m'\<rparr>\<rparr>)
          \<and> saveVoiceToStorage clk (Some d) f s =
              (Some (Inr (media_id asset)),
               s\<lparr>localStorage := (localStorage s)\<lparr>glintMediaStorage := Parsed m'\<rparr>\<rparr>)
          \<and> (\<forall>c'. c' \<noteq> c \<longrightarrow> m' c' = m c')
          \<and> m' c = Some ((case m c of None \<Rightarrow> [] | Some l \<Rightarrow> l) @ [asset])
          \<and> media_data asset = d \<and> media_fileName asset = f \<and> media_type asset = ''voice''"
    by (intro exI [of _ ?m'] exI [of _ ?voice]) simp
qed

theorem C10_media_write_frame_witness:
  "currentChatId media_page = Some ''chat-1''
   \<and> parse_or (glintMediaStorage (localStorage media_page)) Map.empty = Inr stored_media
   \<and> get_property stored_media ''chat-1'' = Own [old_photo]
   \<and> (\<exists>m' asset.
         savePhotoToStorage noon ''data:image/png;base64,CCCC'' ''cat.png'' media_page =
           (Some (media_id asset),
            media_page\<lparr>localStorage := (localStorage media_page)\<lparr>glintMediaStorage := Parsed m'\<rparr>\<rparr>)
         \<and> m' ''chat-0'' = Some [other_voice]
         \<and> m' ''chat-1'' = Some [old_photo, asset]
         \<and> media_fileName asset = ''cat.png'')
   \<and> (\<exists>m' asset.
         saveVoiceToStorage noon (Some ''data:audio/webm;base64,DDDD'') ''note.webm'' media_page =
           (Some (Inr (media_id asset)),
            media_page\<lparr>localStorage := (localStorage media_page)\<lparr>glintMediaStorage := Parsed m'\<rparr>\<rparr>)
         \<and> m' ''chat-0'' = Some [other_voice]
         \<and> m' ''chat-1'' = Some [old_photo, asset]
         \<and> media_type asset = ''voice'')"
proof -
  have a: "currentChatId media_page = Some ''chat-1''"
    by (simp add: media_page_def active_page_def)
  have b: "''chat-1'' \<noteq> []"
    by simp
  have c: "parse_or (glintMediaStorage (localStorage media_page)) Map.empty = Inr stored_media"
    by (simp add: media_page_def parse_or_def)
  have d: "stored_media ''chat-0'' = Some [other_voice]" "stored_media ''chat-1'' = Some [old_photo]"
    by (simp_all add: stored_media_def)
  from d(2) have e: "get_property stored_media ''chat-1'' = Own [old_photo]"
    by (simp add: get_property_def)
  then have e': "get_property stored_media ''chat-1'' \<noteq> Inherited"
    by simp
  note frame = C10_media_write_frame [OF a b c e', of noon "''data:image/png;base64,CCCC''" "''cat.png''"]
  note voice_frame = C10_media_write_frame [OF a b c e', of noon "''data:audio/webm;base64,DDDD''" "''note.webm''"]
  from frame obtain m' asset where
    r: "savePhotoToStorage noon ''data:image/png;base64,CCCC'' ''cat.png'' media_page =
          (Some (media_id asset),
           media_page\<lparr>localStorage := (localStorage media_page)\<lparr>glintMediaStorage := Parsed m'\<rparr>\<rparr>)"
    and fr: "\<forall>c'. c' \<noteq> ''chat-1'' \<longrightarrow> m' c' = stored_media c'"
    and ap: "m' ''chat-1'' = Some ((case stored_media ''chat-1'' of None \<Rightarrow> [] | Some l \<Rightarrow> l) @ [asset])"
    and fn: "media_fileName asset = ''cat.png''"
    by blast
  from fr have "m' ''chat-0'' = stored_media ''chat-0''"
    by simp
  with d have f0: "m' ''chat-0'' = Some [other_voice]"
    by simp
  from ap d have f1: "m' ''chat-1'' = Some [old_photo, asset]"
    by simp
  from r f0 f1 fn have photo: "\<exists>m' asset.
         savePhotoToStorage noon ''data:image/png;base64,CCCC'' ''cat.png'' media_page =
           (Some (media_id asset),
            media_page\<lparr>localStorage := (localStorage media_page)\<lparr>glintMediaStorage := Parsed m'\<rparr>\<rparr>)
         \<and> m' ''chat-0'' = Some [other_voice]
         \<and> m' ''chat-1'' = Some [old_photo, asset]
         \<and> media_fileName asset = ''cat.png''"
    by blast
  from voice_frame obtain mv voice where
    rv: "saveVoiceToStorage noon (Some ''data:audio/webm;base64,DDDD'') ''note.webm'' media_page =
          (Some (Inr (media_id voice)),
           media_page\<lparr>localStorage := (localStorage media_page)\<lparr>glintMediaStorage := Parsed mv\<rparr>\<rparr>)"
    and frv: "\<forall>c'. c' \<noteq> ''chat-1'' \<longrightarrow> mv c' = stored_media c'"
    and apv: "mv ''chat-1'' = Some ((case stored_media ''chat-1'' of None \<Rightarrow> [] | Some l \<Rightarrow> l) @ [voice])"
    and tv: "media_type voice = ''voice''"
    by blast
  from frv have "mv ''chat-0'' = stored_media ''chat-0''"
    by simp
  with d have v0: "mv ''chat-0'' = Some [other_voice]"
    by simp
  from apv d have v1: "mv ''chat-1'' = Some [old_photo, voice]"
    by simp
  from rv v0 v1 tv have voice: "\<exists>m' asset.
         saveVoiceToStorage noon (Some ''data:audio/webm;base64,DDDD'') ''note.webm'' media_page =
           (Some (Inr (media_id asset)),
            media_page\<lparr>localStorage := (localStorage media_page)\<lparr>glintMediaStorage := Parsed m'\<rparr>\<rparr>)
         \<and> m' ''chat-0'' = Some [other_voice]
         \<and> m' ''chat-1'' = Some [old_photo, asset]
         \<and> media_type asset = ''voice''"
    by blast
  from a c e photo voice show ?thesis
    by blast
qed

end
